theory Spec2Isabelle
  imports Main "HOL-Library.Signed_Division"
begin

section \<open>Constants and enumerations (cathedral.h)\<close>

text \<open>
  The C++ \<open>int\<close> values of the engine (coordinates, action ids, piece counts, scores) are
  modelled as unbounded \<open>int\<close>: on the action range and on the 10 x 10 board no
  computation of the engine leaves the 32-bit range. Integer division and remainder are
  the truncating ones of C++ (\<open>sdiv\<close>, \<open>smod\<close>).
\<close>

definition num_players :: int where "num_players = 2"
definition board_width :: int where "board_width = 10"
definition board_height :: int where "board_height = 10"
definition board_size :: int where "board_size = board_width * board_height"
definition range_of_nn_distribution :: int where "range_of_nn_distribution = 5600"
definition max_game_length :: int where "max_game_length = 40"
definition max_rotations :: int where "max_rotations = 4"

datatype BuildingType =
    Tavern | Stable | Inn | Bridge | Manor | SquareB | Black_Abbey | White_Abbey
  | Black_Academy | White_Academy | Infirmary | Castle | Tower | Cathedral

text \<open>\<open>static_cast<int>(type)\<close> and \<open>static_cast<BuildingType>(i)\<close>.\<close>

fun building_int :: "BuildingType \<Rightarrow> int" where
  "building_int Tavern = 0"
| "building_int Stable = 1"
| "building_int Inn = 2"
| "building_int Bridge = 3"
| "building_int Manor = 4"
| "building_int SquareB = 5"
| "building_int Black_Abbey = 6"
| "building_int White_Abbey = 7"
| "building_int Black_Academy = 8"
| "building_int White_Academy = 9"
| "building_int Infirmary = 10"
| "building_int Castle = 11"
| "building_int Tower = 12"
| "building_int Cathedral = 13"

definition all_building_types :: "BuildingType list" where
  "all_building_types =
     [Tavern, Stable, Inn, Bridge, Manor, SquareB, Black_Abbey, White_Abbey,
      Black_Academy, White_Academy, Infirmary, Castle, Tower, Cathedral]"

definition building_of_int :: "int \<Rightarrow> BuildingType option" where
  "building_of_int i =
     (if 0 \<le> i \<and> i < 14 then Some (all_building_types ! nat i) else None)"

definition common_buildings :: "BuildingType list" where
  "common_buildings =
     [Tavern, Stable, Inn, Bridge, Manor, SquareB, Infirmary, Castle, Tower]"

definition black_specific_buildings :: "BuildingType list" where
  "black_specific_buildings = [Black_Abbey, Black_Academy]"

definition white_specific_buildings :: "BuildingType list" where
  "white_specific_buildings = [Cathedral, White_Abbey, White_Academy]"

datatype Rotation = ROTATE_0 | ROTATE_90 | ROTATE_180 | ROTATE_270

fun rotation_int :: "Rotation \<Rightarrow> int" where
  "rotation_int ROTATE_0 = 0"
| "rotation_int ROTATE_90 = 1"
| "rotation_int ROTATE_180 = 2"
| "rotation_int ROTATE_270 = 3"

definition all_rotations :: "Rotation list" where
  "all_rotations = [ROTATE_0, ROTATE_90, ROTATE_180, ROTATE_270]"

definition rotation_of_int :: "int \<Rightarrow> Rotation option" where
  "rotation_of_int i =
     (if 0 \<le> i \<and> i < 4 then Some (all_rotations ! nat i) else None)"

datatype Turnable = NO | HALF | FULL

fun turnable_int :: "Turnable \<Rightarrow> int" where
  "turnable_int NO = 0"
| "turnable_int HALF = 1"
| "turnable_int FULL = 3"

datatype CellState = EMPTY | BLUE | BLACK | BLACK_REGION | WHITE | WHITE_REGION

text \<open>The exceptions of the engine, and the reads past a table that C++ leaves undefined.\<close>

datatype error =
    InvalidArgument    \<comment> \<open>\<open>std::invalid_argument\<close>: rotation not allowed for the building\<close>
  | OutOfRange         \<comment> \<open>\<open>std::out_of_range\<close>: building is no longer available\<close>
  | UndefinedBehaviour \<comment> \<open>an index outside a table or an array\<close>

section \<open>Geometry\<close>

datatype Square = Square (sq_x: int) (sq_y: int)

text \<open>Factors for the rotation by 0, 90, 180 and 270 degrees.\<close>

fun dx :: "Rotation \<Rightarrow> int" where
  "dx ROTATE_0 = 1"
| "dx ROTATE_90 = 0"
| "dx ROTATE_180 = - 1"
| "dx ROTATE_270 = 0"

fun dy :: "Rotation \<Rightarrow> int" where
  "dy ROTATE_0 = 0"
| "dy ROTATE_90 = 1"
| "dy ROTATE_180 = 0"
| "dy ROTATE_270 = - 1"

definition rotate_sq :: "Square \<Rightarrow> Rotation \<Rightarrow> Square" where
  "rotate_sq s r =
     Square (sq_x s * dx r - sq_y s * dy r) (sq_y s * dx r + sq_x s * dy r)"

text \<open>\<open>Square::operator+\<close> and \<open>Square::operator<\<close> (rows first, then columns).\<close>

definition square_plus :: "Square \<Rightarrow> Square \<Rightarrow> Square" where
  "square_plus a b = Square (sq_x a + sq_x b) (sq_y a + sq_y b)"

definition square_less :: "Square \<Rightarrow> Square \<Rightarrow> bool" where
  "square_less a b = (if sq_y a = sq_y b then sq_x a < sq_x b else sq_y a < sq_y b)"

section \<open>The building catalogue\<close>

text \<open>
  A \<open>std::set<Square>\<close> is an ordered list without duplicates, ordered by
  \<open>square_less\<close>; \<open>set_insert\<close> and \<open>set_erase\<close> are its \<open>insert\<close> and \<open>erase\<close>.
\<close>

fun set_insert :: "Square \<Rightarrow> Square list \<Rightarrow> Square list" where
  "set_insert s [] = [s]"
| "set_insert s (t # ts) =
     (if square_less s t then s # t # ts
      else if square_less t s then t # set_insert s ts
      else t # ts)"

fun set_erase :: "Square \<Rightarrow> Square list \<Rightarrow> Square list" where
  "set_erase s [] = []"
| "set_erase s (t # ts) =
     (if square_less s t then t # ts
      else if square_less t s then t # set_erase s ts
      else ts)"

definition rotate_form :: "Square list \<Rightarrow> Rotation \<Rightarrow> Square list" where
  "rotate_form frm r = map (\<lambda>s. rotate_sq s r) frm"

text \<open>Rotations \<open>0 .. turnable\<close>, in this order.\<close>

definition pre_calculate_forms :: "Turnable \<Rightarrow> Square list \<Rightarrow> Square list list" where
  "pre_calculate_forms t frm =
     map (rotate_form frm) (take (nat (turnable_int t + 1)) all_rotations)"

definition insert_neighbours :: "Square \<Rightarrow> Square list \<Rightarrow> Square list" where
  "insert_neighbours s cs =
     set_insert (Square (sq_x s) (sq_y s - 1))
       (set_insert (Square (sq_x s) (sq_y s + 1))
         (set_insert (Square (sq_x s - 1) (sq_y s))
           (set_insert (Square (sq_x s + 1) (sq_y s)) cs)))"

definition corners_of_form :: "Square list \<Rightarrow> Square list" where
  "corners_of_form frm =
     foldl (\<lambda>cs s. set_erase s cs) (foldl (\<lambda>cs s. insert_neighbours s cs) [] frm) frm"

definition pre_calculate_corners :: "Square list list \<Rightarrow> Square list list" where
  "pre_calculate_corners forms = map corners_of_form forms"

record Building =
  how_many :: int
  turnable :: Turnable
  default_form :: "Square list"
  pre_calculated_forms :: "Square list list"
  pre_calculated_corners :: "Square list list"

text \<open>The constructor of \<open>Building\<close>: the forms and then the corners are computed once.\<close>

definition Building_ctor :: "int \<Rightarrow> Turnable \<Rightarrow> Square list \<Rightarrow> Building" where
  "Building_ctor n t frm =
     (let forms = pre_calculate_forms t frm in
      \<lparr> how_many = n, turnable = t, default_form = frm,
        pre_calculated_forms = forms,
        pre_calculated_corners = pre_calculate_corners forms \<rparr>)"

definition create_instances :: "Building list" where
  "create_instances =
    [ Building_ctor 2 NO [Square 0 0],
      Building_ctor 2 HALF [Square 0 0, Square 1 0],
      Building_ctor 2 FULL [Square 0 0, Square 1 0, Square 1 1],
      Building_ctor 1 HALF [Square 0 0, Square 0 (- 1), Square 0 1],
      Building_ctor 1 FULL [Square (- 1) 0, Square 0 0, Square 1 0, Square 0 1],
      Building_ctor 1 NO [Square 0 0, Square 0 1, Square 1 0, Square 1 1],
      Building_ctor 1 HALF [Square (- 1) 0, Square 0 0, Square 0 1, Square 1 1],
      Building_ctor 1 HALF [Square (- 1) 1, Square 0 0, Square 0 1, Square 1 0],
      Building_ctor 1 FULL
        [Square (- 1) 0, Square 0 (- 1), Square 0 0, Square 0 1, Square 1 (- 1)],
      Building_ctor 1 FULL
        [Square (- 1) (- 1), Square 0 (- 1), Square 0 0, Square 0 1, Square 1 0],
      Building_ctor 1 NO
        [Square (- 1) 0, Square 0 (- 1), Square 0 0, Square 0 1, Square 1 0],
      Building_ctor 1 FULL
        [Square (- 1) 0, Square (- 1) 1, Square 0 0, Square 1 0, Square 1 1],
      Building_ctor 1 FULL
        [Square (- 1) (- 1), Square 0 (- 1), Square 0 0, Square 1 0, Square 1 1],
      Building_ctor 1 FULL
        [Square (- 1) 0, Square 0 (- 1), Square 0 0, Square 0 1, Square 0 2, Square 1 0] ]"

definition get_instance :: "BuildingType \<Rightarrow> Building" where
  "get_instance t = create_instances ! nat (building_int t)"

definition translate_positions :: "Square list \<Rightarrow> Square \<Rightarrow> Square list" where
  "translate_positions positions p = map (\<lambda>s. square_plus s p) positions"

text \<open>
  The private accessors \<open>form(rotation)\<close> and \<open>corners(rotation)\<close> index the precomputed
  tables without a check; the constructor of \<open>Move\<close> is their only caller and guards them.
\<close>

definition form_rel :: "Building \<Rightarrow> Rotation \<Rightarrow> Square list" where
  "form_rel b r = pre_calculated_forms b ! nat (rotation_int r)"

definition corners_rel :: "Building \<Rightarrow> Rotation \<Rightarrow> Square list" where
  "corners_rel b r = pre_calculated_corners b ! nat (rotation_int r)"

definition form_at :: "Building \<Rightarrow> Rotation \<Rightarrow> Square \<Rightarrow> Square list" where
  "form_at b r p = translate_positions (form_rel b r) p"

definition corners_at :: "Building \<Rightarrow> Rotation \<Rightarrow> Square \<Rightarrow> Square list" where
  "corners_at b r p = translate_positions (corners_rel b r) p"

section \<open>Moves and their encoding\<close>

record Move =
  form :: "Square list"
  corners :: "Square list"
  pos :: Square
  building_type :: BuildingType
  rotation :: Rotation

text \<open>\<open>Move::Move(position, type, rotation)\<close>: throws when the rotation is not allowed.\<close>

definition Move_ctor :: "Square \<Rightarrow> BuildingType \<Rightarrow> Rotation \<Rightarrow> error + Move" where
  "Move_ctor position t r =
     (let building = get_instance t;
          max_rotation = turnable_int (turnable building)
      in if rotation_int r > max_rotation then Inl InvalidArgument
         else Inr \<lparr> form = form_at building r position,
                    corners = corners_at building r position,
                    pos = position, building_type = t, rotation = r \<rparr>)"

definition encode :: "Move \<Rightarrow> int" where
  "encode m =
     building_int (building_type m) * board_size * max_rotations
       + rotation_int (rotation m) * board_size
       + sq_y (pos m) * board_width + sq_x (pos m)"

text \<open>
  \<open>Move::decode_move\<close>. A building index outside the catalogue makes \<open>get_instance\<close> read
  past its table, and a negative rotation index passes the check of the constructor
  and reads before the table of forms: both are undefined in C++.
\<close>

definition decode_move :: "int \<Rightarrow> error + Move" where
  "decode_move action =
     (let building_idx = action sdiv (board_size * max_rotations);
          rotation_idx = (action smod (board_size * max_rotations)) sdiv board_size;
          y = (action smod board_size) sdiv board_width;
          x = action smod board_width
      in case building_of_int building_idx of
           None \<Rightarrow> Inl UndefinedBehaviour
         | Some t \<Rightarrow>
             (case rotation_of_int rotation_idx of
                None \<Rightarrow> Inl UndefinedBehaviour
              | Some r \<Rightarrow> Move_ctor (Square x y) t r))"

text \<open>\<open>Move::operator==\<close> compares the building type, the rotation and the anchor.\<close>

definition move_eq :: "Move \<Rightarrow> Move \<Rightarrow> bool" where
  "move_eq a b =
     (building_type a = building_type b \<and> rotation a = rotation b \<and> pos a = pos b)"

text \<open>
  The record of a move whose rotation has already been checked. Inside the generator of
  candidate moves the rotation index runs to the building's maximum only, so that the
  check of the constructor cannot fail there.
\<close>

definition Move_make :: "Square \<Rightarrow> BuildingType \<Rightarrow> Rotation \<Rightarrow> Move" where
  "Move_make position t r =
     \<lparr> form = form_at (get_instance t) r position,
       corners = corners_at (get_instance t) r position,
       pos = position, building_type = t, rotation = r \<rparr>"

section \<open>Inventories\<close>

record Playerpieces =
  available_buildings :: "int list"
  specific_building_types :: "BuildingType list"

definition add_availability :: "int list \<Rightarrow> BuildingType \<Rightarrow> int list" where
  "add_availability av t =
     av[nat (building_int t) := av ! nat (building_int t) + how_many (get_instance t)]"

definition initialize_building_availability :: "Playerpieces \<Rightarrow> Playerpieces" where
  "initialize_building_availability pp =
     pp\<lparr> available_buildings :=
           foldl add_availability
             (foldl add_availability (replicate 14 0) common_buildings)
             (specific_building_types pp) \<rparr>"

definition Playerpieces_ctor :: "BuildingType list \<Rightarrow> Playerpieces" where
  "Playerpieces_ctor specific =
     initialize_building_availability
       \<lparr> available_buildings = replicate 14 0, specific_building_types = specific \<rparr>"

definition reset_building_availability :: "Playerpieces \<Rightarrow> Playerpieces" where
  "reset_building_availability pp = initialize_building_availability pp"

definition is_building_available :: "Playerpieces \<Rightarrow> BuildingType \<Rightarrow> bool" where
  "is_building_available pp t = (available_buildings pp ! nat (building_int t) > 0)"

definition use_building :: "Playerpieces \<Rightarrow> BuildingType \<Rightarrow> error + Playerpieces" where
  "use_building pp t =
     (if \<not> is_building_available pp t then Inl OutOfRange
      else Inr (pp\<lparr> available_buildings :=
                  (available_buildings pp)
                    [nat (building_int t) :=
                       available_buildings pp ! nat (building_int t) - 1] \<rparr>))"

definition return_building :: "Playerpieces \<Rightarrow> BuildingType \<Rightarrow> Playerpieces" where
  "return_building pp t =
     (if t \<noteq> Cathedral
      then pp\<lparr> available_buildings :=
                (available_buildings pp)
                  [nat (building_int t) :=
                     available_buildings pp ! nat (building_int t) + 1] \<rparr>
      else pp)"

definition get_available_building_types :: "Playerpieces \<Rightarrow> BuildingType list" where
  "get_available_building_types pp =
     filter (\<lambda>t. available_buildings pp ! nat (building_int t) > 0) all_building_types"

section \<open>The board\<close>

record Board =
  field :: "CellState list list"

definition Board_ctor :: Board where
  "Board_ctor = \<lparr> field = replicate 10 (replicate 10 EMPTY) \<rparr>"

text \<open>\<open>field[square.y][square.x]\<close>, read and written.\<close>

definition cell_at :: "Board \<Rightarrow> Square \<Rightarrow> CellState" where
  "cell_at b sq = field b ! nat (sq_y sq) ! nat (sq_x sq)"

definition set_cell :: "Board \<Rightarrow> Square \<Rightarrow> CellState \<Rightarrow> Board" where
  "set_cell b sq c =
     b\<lparr> field := (field b)[nat (sq_y sq) := (field b ! nat (sq_y sq))[nat (sq_x sq) := c]] \<rparr>"

definition is_on_board :: "Square \<Rightarrow> bool" where
  "is_on_board sq = (sq_x sq \<ge> 0 \<and> sq_x sq < 10 \<and> sq_y sq \<ge> 0 \<and> sq_y sq < 10)"

definition color_is_compatible :: "CellState \<Rightarrow> CellState \<Rightarrow> bool" where
  "color_is_compatible on_position to_place =
     (on_position = EMPTY \<or>
      (on_position = BLACK_REGION \<and> to_place = BLACK) \<or>
      (on_position = WHITE_REGION \<and> to_place = WHITE))"

type_synonym Player = int
type_synonym Action = int

definition get_square_color :: "Move \<Rightarrow> Player \<Rightarrow> CellState" where
  "get_square_color m p =
     (if building_type m = Cathedral then BLUE
      else if p = 0 then WHITE
      else if p = 1 then BLACK
      else EMPTY)"

text \<open>The loop of \<open>Board::is_move_valid\<close>, leaving at the first square that does not fit.\<close>

fun form_fits :: "Board \<Rightarrow> CellState \<Rightarrow> Square list \<Rightarrow> bool" where
  "form_fits b building_color [] = True"
| "form_fits b building_color (sq # sqs) =
     (if \<not> is_on_board sq \<or> \<not> color_is_compatible (cell_at b sq) building_color
      then False
      else form_fits b building_color sqs)"

definition is_move_valid :: "Board \<Rightarrow> Move \<Rightarrow> Player \<Rightarrow> bool" where
  "is_move_valid b m p = form_fits b (get_square_color m p) (form m)"

text \<open>
  \<open>Board::place_color\<close> writes without a check; a square outside the array is undefined
  behaviour in C++.
\<close>

fun place_color :: "Board \<Rightarrow> Square list \<Rightarrow> CellState \<Rightarrow> error + Board" where
  "place_color b [] c = Inr b"
| "place_color b (sq # sqs) c =
     (if is_on_board sq then place_color (set_cell b sq c) sqs c
      else Inl UndefinedBehaviour)"

section \<open>The game state\<close>

record PlayerMove =
  player :: Player
  move :: Move

definition player_move_eq :: "PlayerMove \<Rightarrow> PlayerMove \<Rightarrow> bool" where
  "player_move_eq lhs rhs = (player lhs = player rhs \<and> move_eq (move lhs) (move rhs))"

text \<open>
  \<open>history\<close> and \<open>move_number\<close> are the fields \<open>history_\<close> and \<open>move_number_\<close> that
  \<open>CathedralState\<close> inherits from the framework's \<open>State\<close>; a history entry is a
  \<open>PlayerAction\<close>, the pair of a player and an action id.
\<close>

record CathedralState =
  history :: "(Player \<times> Action) list"
  move_number :: int
  players :: "Playerpieces list"
  initial_board :: Board
  removed_moves :: "PlayerMove list"
  board :: Board
  current_player :: Player
  outcome :: Player

definition kInvalidPlayer :: Player where "kInvalidPlayer = - 3"
definition kTerminalPlayerId :: Player where "kTerminalPlayerId = - 4"

definition CathedralState_ctor :: CathedralState where
  "CathedralState_ctor =
     \<lparr> history = [], move_number = 0,
       players = [Playerpieces_ctor white_specific_buildings,
                  Playerpieces_ctor black_specific_buildings],
       initial_board = Board_ctor,
       removed_moves = [],
       board = Board_ctor,
       current_player = 0,
       outcome = kInvalidPlayer \<rparr>"

definition get_move_count :: "CathedralState \<Rightarrow> int" where
  "get_move_count s = int (length (history s))"

text \<open>\<open>Move(int action)\<close> delegates to \<open>decode_move\<close>.\<close>

definition Move_of_action :: "Action \<Rightarrow> error + Move" where
  "Move_of_action a = decode_move a"

text \<open>
  \<open>is_piece_removed\<close> builds a \<open>PlayerMove\<close> from the history entry, which decodes the
  action, and looks for an equal entry among the removed moves.
\<close>

definition is_piece_removed :: "CathedralState \<Rightarrow> Player \<times> Action \<Rightarrow> error + bool" where
  "is_piece_removed s pa =
     (case Move_of_action (snd pa) of
        Inl e \<Rightarrow> Inl e
      | Inr m \<Rightarrow>
          Inr (list_ex (\<lambda>r. player_move_eq r \<lparr> player = fst pa, move = m \<rparr>)
                 (removed_moves s)))"

section \<open>Generating moves, the turn, the end of the game\<close>

text \<open>
  \<open>get_possible_moves(type, player)\<close>: every anchor of the board, row by row, and every
  rotation up to the building's maximum.
\<close>

definition candidate_rotations :: "BuildingType \<Rightarrow> Rotation list" where
  "candidate_rotations t =
     take (nat (turnable_int (turnable (get_instance t)) + 1)) all_rotations"

definition get_possible_moves_type ::
    "CathedralState \<Rightarrow> BuildingType \<Rightarrow> Player \<Rightarrow> Move list" where
  "get_possible_moves_type s t p =
     (if \<not> is_building_available (players s ! nat p) t then []
      else concat (map (\<lambda>y. concat (map (\<lambda>x.
             filter (\<lambda>m. is_move_valid (board s) m p)
               (map (\<lambda>r. Move_make (Square x y) t r) (candidate_rotations t)))
             [0..9]))
             [0..9]))"

definition generate_all_possible_moves :: "CathedralState \<Rightarrow> Move list" where
  "generate_all_possible_moves s =
     concat (map (\<lambda>t. get_possible_moves_type s t (current_player s))
               (get_available_building_types (players s ! nat (current_player s))))"

definition get_possible_moves :: "CathedralState \<Rightarrow> Player \<Rightarrow> Move list" where
  "get_possible_moves s p =
     (if p \<noteq> current_player s then []
      else if get_move_count s = 0
           then get_possible_moves_type s (white_specific_buildings ! 0) p
           else generate_all_possible_moves s)"

definition LegalActions :: "CathedralState \<Rightarrow> Action list" where
  "LegalActions s = sort (map encode (get_possible_moves s (current_player s)))"

text \<open>
  The loop shared by \<open>update_current_player\<close> and \<open>is_finished\<close>: does some available
  building type of the player have a placement?
\<close>

fun has_moves_loop :: "CathedralState \<Rightarrow> Player \<Rightarrow> BuildingType list \<Rightarrow> bool" where
  "has_moves_loop s p [] = False"
| "has_moves_loop s p (t # ts) =
     (if get_possible_moves_type s t p \<noteq> [] then True else has_moves_loop s p ts)"

definition update_current_player :: "CathedralState \<Rightarrow> CathedralState" where
  "update_current_player s =
     (let next_player = (current_player s + 1) smod 2;
          has_moves = has_moves_loop s next_player
                        (get_available_building_types (players s ! nat next_player))
      in if has_moves then s\<lparr> current_player := next_player \<rparr> else s)"

definition is_finished :: "CathedralState \<Rightarrow> bool" where
  "is_finished s =
     (if has_moves_loop s ((current_player s + 0) smod 2)
           (get_available_building_types
              (players s ! nat ((current_player s + 0) smod 2)))
      then False
      else if has_moves_loop s ((current_player s + 1) smod 2)
                (get_available_building_types
                   (players s ! nat ((current_player s + 1) smod 2)))
      then False
      else True)"

definition IsTerminal :: "CathedralState \<Rightarrow> bool" where
  "IsTerminal s = (outcome s \<noteq> kInvalidPlayer \<or> is_finished s)"

definition CurrentPlayer :: "CathedralState \<Rightarrow> Player" where
  "CurrentPlayer s = (if IsTerminal s then kTerminalPlayerId else current_player s)"

section \<open>Scoring\<close>

fun calc_score_loop ::
    "CathedralState \<Rightarrow> (Player \<times> Action) list \<Rightarrow> int \<times> int \<Rightarrow> error + (int \<times> int)" where
  "calc_score_loop s [] (white_score, black_score) = Inr (white_score, black_score)"
| "calc_score_loop s (pa # pas) (white_score, black_score) =
     (case is_piece_removed s pa of
        Inl e \<Rightarrow> Inl e
      | Inr True \<Rightarrow> calc_score_loop s pas (white_score, black_score)
      | Inr False \<Rightarrow>
          (case Move_of_action (snd pa) of
             Inl e \<Rightarrow> Inl e
           | Inr m \<Rightarrow>
               (let player_color = get_square_color m (fst pa) in
                if player_color = BLACK
                then calc_score_loop s pas (white_score, black_score - int (length (form m)))
                else if player_color = WHITE
                then calc_score_loop s pas (white_score - int (length (form m)), black_score)
                else calc_score_loop s pas (white_score, black_score))))"

definition calc_score :: "CathedralState \<Rightarrow> error + (int \<times> int)" where
  "calc_score s = calc_score_loop s (history s) (47, 47)"

text \<open>
  \<open>Returns\<close>: the utilities of player 0 (white) and player 1 (black); the values 1.0,
  -1.0 and 0.0 are written as integers.
\<close>

definition Returns :: "CathedralState \<Rightarrow> error + int list" where
  "Returns s =
     (if is_finished s
      then (case calc_score s of
              Inl e \<Rightarrow> Inl e
            | Inr (white_score, black_score) \<Rightarrow>
                if black_score > white_score then Inr [1, - 1]
                else if white_score > black_score then Inr [- 1, 1]
                else Inr [0, 0])
      else Inr [0, 0])"

section \<open>Regions and capture\<close>

definition get_sub_color :: "CellState \<Rightarrow> CellState" where
  "get_sub_color color =
     (case color of BLACK \<Rightarrow> BLACK_REGION | WHITE \<Rightarrow> WHITE_REGION | _ \<Rightarrow> EMPTY)"

definition is_in_region :: "Square \<Rightarrow> Square list \<Rightarrow> bool" where
  "is_in_region position region = (position \<in> set region)"

text \<open>The loop of \<open>remove_move\<close> over the form: squares outside the board are skipped.\<close>

fun clear_form :: "Board \<Rightarrow> Square list \<Rightarrow> Board" where
  "clear_form b [] = b"
| "clear_form b (sq # sqs) =
     (if is_on_board sq then clear_form (set_cell b sq EMPTY) sqs else clear_form b sqs)"

text \<open>
  \<open>remove_move\<close>. \<open>players[player_move.player]\<close> is an array of two inventories: any
  other index is undefined behaviour.
\<close>

definition remove_move :: "CathedralState \<Rightarrow> PlayerMove \<Rightarrow> error + CathedralState" where
  "remove_move s pm =
     (if player pm = 0 \<or> player pm = 1
      then Inr (s\<lparr> board := clear_form (board s) (form (move pm)),
                  removed_moves := removed_moves s @ [pm],
                  players := (players s)
                    [nat (player pm) :=
                       return_building (players s ! nat (player pm))
                         (building_type (move pm))] \<rparr>)
      else Inl UndefinedBehaviour)"

fun enemy_buildings_loop ::
    "CathedralState \<Rightarrow> Square list \<Rightarrow> CellState \<Rightarrow> (Player \<times> Action) list \<Rightarrow>
     PlayerMove list \<Rightarrow> error + PlayerMove list" where
  "enemy_buildings_loop s region enemy_color [] enemy_buildings = Inr enemy_buildings"
| "enemy_buildings_loop s region enemy_color (pa # pas) enemy_buildings =
     (case is_piece_removed s pa of
        Inl e \<Rightarrow> Inl e
      | Inr True \<Rightarrow> enemy_buildings_loop s region enemy_color pas enemy_buildings
      | Inr False \<Rightarrow>
          (case Move_of_action (snd pa) of
             Inl e \<Rightarrow> Inl e
           | Inr m \<Rightarrow>
               if is_in_region (pos m) region \<and> get_square_color m (fst pa) \<noteq> enemy_color
               then enemy_buildings_loop s region enemy_color pas
                      (enemy_buildings @ [\<lparr> player = fst pa, move = m \<rparr>])
               else enemy_buildings_loop s region enemy_color pas enemy_buildings))"

definition get_all_enemy_buildings_in_region ::
    "CathedralState \<Rightarrow> Square list \<Rightarrow> CellState \<Rightarrow> error + PlayerMove list" where
  "get_all_enemy_buildings_in_region s region enemy_color =
     enemy_buildings_loop s region enemy_color (history s) []"

fun remove_moves :: "CathedralState \<Rightarrow> PlayerMove list \<Rightarrow> error + CathedralState" where
  "remove_moves s [] = Inr s"
| "remove_moves s (pm # pms) =
     (case remove_move s pm of Inl e \<Rightarrow> Inl e | Inr s' \<Rightarrow> remove_moves s' pms)"

text \<open>
  \<open>process_region\<close>. The squares of the region are written without a check, as
  \<open>place_color\<close> does.
\<close>

definition process_region ::
    "CathedralState \<Rightarrow> Square list \<Rightarrow> CellState \<Rightarrow> error + CathedralState" where
  "process_region s region color =
     (case get_all_enemy_buildings_in_region s region color of
        Inl e \<Rightarrow> Inl e
      | Inr player_moves_in_region \<Rightarrow>
          if length player_moves_in_region < 2
          then (case remove_moves s player_moves_in_region of
                  Inl e \<Rightarrow> Inl e
                | Inr s' \<Rightarrow>
                    (case place_color (board s') region (get_sub_color color) of
                       Inl e \<Rightarrow> Inl e
                     | Inr b \<Rightarrow> Inr (s'\<lparr> board := b \<rparr>)))
          else Inr s)"

text \<open>
  \<open>field_without_color\<close> is a \<open>std::array\<close> of 10 rows of 10 integers, 1 on the squares
  that do not hold the colour. The flood fill reads it on squares of the board only;
  the model's read gives 0 where the list has no such entry, which in a 10 x 10 array
  never happens.
\<close>

definition field_without_color :: "Board \<Rightarrow> CellState \<Rightarrow> int list list" where
  "field_without_color b color =
     map (\<lambda>y. map (\<lambda>x. if field b ! y ! x \<noteq> color then 1 else 0) [0..<10]) [0..<10]"

definition mask_at :: "int list list \<Rightarrow> Square \<Rightarrow> int" where
  "mask_at m sq =
     (if nat (sq_y sq) < length m \<and> nat (sq_x sq) < length (m ! nat (sq_y sq))
      then m ! nat (sq_y sq) ! nat (sq_x sq) else 0)"

definition mask_clear :: "int list list \<Rightarrow> Square \<Rightarrow> int list list" where
  "mask_clear m sq = m[nat (sq_y sq) := (m ! nat (sq_y sq))[nat (sq_x sq) := 0]]"

text \<open>The eight neighbours, in the order of the two nested iterations over \<open>dy\<close> and \<open>dx\<close>.\<close>

definition neighbour_offsets :: "(int \<times> int) list" where
  "neighbour_offsets =
     [(- 1, - 1), (0, - 1), (1, - 1), (- 1, 0), (1, 0), (- 1, 1), (0, 1), (1, 1)]"

fun visit_neighbours ::
    "Square \<Rightarrow> (int \<times> int) list \<Rightarrow> int list list \<times> Square list \<Rightarrow>
     int list list \<times> Square list" where
  "visit_neighbours cur [] (m, q) = (m, q)"
| "visit_neighbours cur ((ddx, ddy) # os) (m, q) =
     (let sq = Square (sq_x cur + ddx) (sq_y cur + ddy) in
      if is_on_board sq \<and> mask_at m sq = 1
      then visit_neighbours cur os (mask_clear m sq, q @ [sq])
      else visit_neighbours cur os (m, q))"

text \<open>The number of squares still marked free, which the flood fill uses up.\<close>

definition free_count :: "int list list \<Rightarrow> nat" where
  "free_count m = sum_list (map (\<lambda>row. length (filter (\<lambda>v. v = 1) row)) m)"

lemma count_ones_update:
  "i < length row \<Longrightarrow> row ! i = (1::int) \<Longrightarrow>
   Suc (length (filter (\<lambda>v. v = 1) (row[i := 0]))) = length (filter (\<lambda>v. v = 1) row)"
proof (induction row arbitrary: i)
  case Nil
  then show ?case by simp
next
  case (Cons a row)
  then show ?case by (cases i) auto
qed

lemma free_count_update:
  "j < length m \<Longrightarrow> Suc (length (filter (\<lambda>v. v = 1) row')) = length (filter (\<lambda>v. v = 1) (m ! j)) \<Longrightarrow>
   Suc (free_count (m[j := row'])) = free_count m"
proof (induction m arbitrary: j)
  case Nil
  then show ?case by simp
next
  case (Cons a m)
  show ?case
  proof (cases j)
    case 0
    with Cons.prems show ?thesis by (simp add: free_count_def)
  next
    case (Suc k)
    with Cons.prems have "Suc (free_count (m[k := row'])) = free_count m"
      by (intro Cons.IH) auto
    with Suc show ?thesis by (simp add: free_count_def)
  qed
qed

lemma free_count_mask_clear:
  assumes "mask_at m sq = 1"
  shows "Suc (free_count (mask_clear m sq)) = free_count m"
proof -
  let ?y = "nat (sq_y sq)" and ?x = "nat (sq_x sq)"
  from assms have y: "?y < length m" and x: "?x < length (m ! ?y)"
    and v: "m ! ?y ! ?x = 1"
    by (auto simp: mask_at_def split: if_splits)
  from count_ones_update [OF x v] free_count_update [OF y]
  show ?thesis by (simp add: mask_clear_def)
qed

lemma visit_neighbours_measure:
  "visit_neighbours cur os (m, q) = (m', q') \<Longrightarrow>
   free_count m' + length q' = free_count m + length q"
proof (induction os arbitrary: m q)
  case Nil
  then show ?case by simp
next
  case (Cons a os)
  obtain ddx ddy where a: "a = (ddx, ddy)" by (cases a)
  let ?sq = "Square (sq_x cur + ddx) (sq_y cur + ddy)"
  show ?case
  proof (cases "is_on_board ?sq \<and> mask_at m ?sq = 1")
    case True
    with Cons.prems a
    have "visit_neighbours cur os (mask_clear m ?sq, q @ [?sq]) = (m', q')"
      by (simp add: Let_def)
    from Cons.IH [OF this] free_count_mask_clear [of m ?sq] True
    show ?thesis by simp
  next
    case False
    with Cons.prems a have "visit_neighbours cur os (m, q) = (m', q')"
      by (auto simp: Let_def)
    from Cons.IH [OF this] show ?thesis .
  qed
qed

text \<open>
  The inner \<open>while\<close> loop of \<open>build_regions\<close>: the queue of squares to look at and the
  region collected so far.
\<close>

function flood ::
    "int list list \<Rightarrow> Square list \<Rightarrow> Square list \<Rightarrow> int list list \<times> Square list" where
  "flood m [] region = (m, region)"
| "flood m (current_field # q) region =
     (case visit_neighbours current_field neighbour_offsets (m, q) of
        (m', q') \<Rightarrow> flood m' q' (region @ [current_field]))"
  by pat_completeness auto
termination
  apply (relation "measure (\<lambda>(m, q, region). free_count m + length q)")
   apply simp
  apply (clarsimp dest!: sym [THEN visit_neighbours_measure])
  done

text \<open>The outer \<open>while (runner < 100)\<close> loop of one colour.\<close>

function sweep ::
    "CellState \<Rightarrow> int \<Rightarrow> int list list \<Rightarrow> CathedralState \<Rightarrow> error + CathedralState" where
  "sweep color runner m s =
     (if runner < 100
      then (let x = runner smod 10; y = runner sdiv 10 in
            if mask_at m (Square x y) = 1
            then (case flood (mask_clear m (Square x y)) [Square x y] [] of
                    (m', region) \<Rightarrow>
                      (case process_region s region color of
                         Inl e \<Rightarrow> Inl e
                       | Inr s' \<Rightarrow> sweep color (runner + 1) m' s'))
            else sweep color (runner + 1) m s)
      else Inr s)"
  by pat_completeness auto
termination
  by (relation "measure (\<lambda>(color, runner, m, s). nat (100 - runner))") auto

declare sweep.simps [simp del]

definition build_regions :: "CathedralState \<Rightarrow> error + CathedralState" where
  "build_regions s =
     (case sweep BLACK 0 (field_without_color (board s) BLACK) s of
        Inl e \<Rightarrow> Inl e
      | Inr s' \<Rightarrow> sweep WHITE 0 (field_without_color (board s') WHITE) s')"

section \<open>Applying and undoing moves\<close>

text \<open>
  The loop of \<open>place_building\<close> over the corners of the move: the second corner that is
  off the board or of the placed colour starts the region sweep and ends the loop; when
  the move count is 3 every corner counts.
\<close>

fun connections_loop ::
    "CathedralState \<Rightarrow> Move \<Rightarrow> int \<Rightarrow> Square list \<Rightarrow> error + CathedralState" where
  "connections_loop s m number_of_connections [] = Inr s"
| "connections_loop s m number_of_connections (sq # sqs) =
     (if \<not> is_on_board sq
         \<or> cell_at (board s) sq = get_square_color m (current_player s)
         \<or> get_move_count s = 3
      then (if number_of_connections + 1 > 1 then build_regions s
            else connections_loop s m (number_of_connections + 1) sqs)
      else connections_loop s m number_of_connections sqs)"

definition place_building :: "CathedralState \<Rightarrow> Move \<Rightarrow> error + CathedralState" where
  "place_building s m =
     (case place_color (board s) (form m) (get_square_color m (current_player s)) of
        Inl e \<Rightarrow> Inl e
      | Inr b \<Rightarrow>
          (let s1 = s\<lparr> board := b \<rparr> in
           if get_move_count s1 > 2 then connections_loop s1 m 0 (corners m)
           else Inr s1))"

text \<open>
  \<open>make_unvalidated_move\<close>: place, take the building from the inventory of the current
  player (which throws when none is left), pass the turn.
\<close>

definition make_unvalidated_move :: "CathedralState \<Rightarrow> Move \<Rightarrow> error + CathedralState" where
  "make_unvalidated_move s m =
     (case place_building s m of
        Inl e \<Rightarrow> Inl e
      | Inr s1 \<Rightarrow>
          (case use_building (players s1 ! nat (current_player s1)) (building_type m) of
             Inl e \<Rightarrow> Inl e
           | Inr pp \<Rightarrow>
               Inr (update_current_player
                      (s1\<lparr> players := (players s1)[nat (current_player s1) := pp] \<rparr>))))"

text \<open>\<open>make_move\<close> returns the boolean and the state it leaves.\<close>

definition make_move :: "CathedralState \<Rightarrow> Move \<Rightarrow> error + (bool \<times> CathedralState)" where
  "make_move s m =
     (if \<not> is_move_valid (board s) m (current_player s) then Inr (False, s)
      else (case make_unvalidated_move s m of
              Inl e \<Rightarrow> Inl e
            | Inr s' \<Rightarrow> Inr (True, s')))"

text \<open>\<open>DoApplyAction\<close> decodes the action and drops the boolean of \<open>make_move\<close>.\<close>

definition DoApplyAction :: "CathedralState \<Rightarrow> Action \<Rightarrow> error + CathedralState" where
  "DoApplyAction s a =
     (case Move_of_action a of
        Inl e \<Rightarrow> Inl e
      | Inr m \<Rightarrow> (case make_move s m of Inl e \<Rightarrow> Inl e | Inr (ok, s') \<Rightarrow> Inr s'))"

text \<open>The replay loop of \<open>undo_move\<close> over the remaining history.\<close>

fun replay :: "CathedralState \<Rightarrow> (Player \<times> Action) list \<Rightarrow> error + CathedralState" where
  "replay s [] = Inr s"
| "replay s (pa # pas) =
     (case Move_of_action (snd pa) of
        Inl e \<Rightarrow> Inl e
      | Inr m \<Rightarrow>
          (case make_unvalidated_move s m of
             Inl e \<Rightarrow> Inl e
           | Inr s' \<Rightarrow> replay s' pas))"

definition undo_move :: "CathedralState \<Rightarrow> error + CathedralState" where
  "undo_move s =
     (if history s \<noteq> []
      then (let s1 = s\<lparr> history := butlast (history s),
                        move_number := move_number s - 1,
                        board := initial_board s,
                        current_player := 0,
                        removed_moves := [],
                        players := [reset_building_availability (players s ! 0),
                                    reset_building_availability (players s ! 1)] \<rparr>
            in replay s1 (history s1))
      else Inr s)"

definition UndoAction :: "CathedralState \<Rightarrow> Player \<Rightarrow> Action \<Rightarrow> error + CathedralState" where
  "UndoAction s p a =
     (case undo_move s of
        Inl e \<Rightarrow> Inl e
      | Inr s' \<Rightarrow> Inr (s'\<lparr> current_player := p, outcome := kInvalidPlayer \<rparr>))"

text \<open>
  Modelled from the spec: \<open>State::ApplyAction\<close> of the framework, the only caller of
  \<open>DoApplyAction\<close>, is not among the sources. The spec has the history as the
  append-only log of the (player, action) pairs of the moves made. \<open>ApplyAction\<close> reads
  the current player, runs \<open>DoApplyAction\<close>, and then appends the pair and counts the
  move, as the framework does: while a move is being applied, \<open>get_move_count\<close> is the
  number of earlier moves.
\<close>

definition ApplyAction :: "CathedralState \<Rightarrow> Action \<Rightarrow> error + CathedralState" where
  "ApplyAction s a =
     (let p = CurrentPlayer s in
      case DoApplyAction s a of
        Inl e \<Rightarrow> Inl e
      | Inr s' \<Rightarrow> Inr (s'\<lparr> history := history s' @ [(p, a)],
                            move_number := move_number s' + 1 \<rparr>))"

text \<open>
  Modelled from the spec: the capture rule of the spec runs "from the third move onward",
  which counts the move being applied among the moves made. \<open>ApplyAction_entry_first\<close>
  is \<open>ApplyAction\<close> in that order, the pair appended before \<open>DoApplyAction\<close> runs. It is
  used for claim C3 only, to show that the claim fails in either order.
\<close>

definition ApplyAction_entry_first ::
    "CathedralState \<Rightarrow> Action \<Rightarrow> error + CathedralState" where
  "ApplyAction_entry_first s a =
     (let p = CurrentPlayer s in
      DoApplyAction (s\<lparr> history := history s @ [(p, a)],
                        move_number := move_number s + 1 \<rparr>) a)"

text \<open>A move applied and undone at once.\<close>

definition apply_then_undo :: "CathedralState \<Rightarrow> Action \<Rightarrow> error + CathedralState" where
  "apply_then_undo s a =
     (case ApplyAction s a of Inl e \<Rightarrow> Inl e | Inr s' \<Rightarrow> undo_move s')"

definition apply_then_undo_entry_first ::
    "CathedralState \<Rightarrow> Action \<Rightarrow> error + CathedralState" where
  "apply_then_undo_entry_first s a =
     (case ApplyAction_entry_first s a of Inl e \<Rightarrow> Inl e | Inr s' \<Rightarrow> undo_move s')"

section \<open>Notions of the specification\<close>

text \<open>Two squares that share an edge, and two squares that touch at a vertex only.\<close>

definition orthogonally_adjacent :: "Square \<Rightarrow> Square \<Rightarrow> bool" where
  "orthogonally_adjacent a b =
     ((sq_x a = sq_x b \<and> \<bar>sq_y a - sq_y b\<bar> = 1) \<or>
      (sq_y a = sq_y b \<and> \<bar>sq_x a - sq_x b\<bar> = 1))"

definition diagonally_adjacent :: "Square \<Rightarrow> Square \<Rightarrow> bool" where
  "diagonally_adjacent a b = (\<bar>sq_x a - sq_x b\<bar> = 1 \<and> \<bar>sq_y a - sq_y b\<bar> = 1)"

text \<open>The building type, the rotation and the anchor that an action id of the range stands for.\<close>

definition action_building :: "Action \<Rightarrow> BuildingType" where
  "action_building a = all_building_types ! nat (a div 400)"

definition action_rotation :: "Action \<Rightarrow> Rotation" where
  "action_rotation a = all_rotations ! nat ((a mod 400) div 100)"

definition action_anchor :: "Action \<Rightarrow> Square" where
  "action_anchor a = Square (a mod 10) ((a mod 100) div 10)"

text \<open>A board of 10 rows of 10 cells, as the \<open>std::array\<close> always is.\<close>

definition board_wf :: "Board \<Rightarrow> bool" where
  "board_wf b = (length (field b) = 10 \<and> (\<forall>row\<in>set (field b). length row = 10))"

text \<open>
  The player has a legal placement: a building type with a piece left, an anchor on the
  board and a rotation allowed for the type such that the move fits the board.
\<close>

definition has_legal_placement :: "CathedralState \<Rightarrow> Player \<Rightarrow> bool" where
  "has_legal_placement s p =
     (\<exists>t\<in>set all_building_types.
        available_buildings (players s ! nat p) ! nat (building_int t) > 0 \<and>
        (\<exists>y\<in>{0..9}. \<exists>x\<in>{0..9}. \<exists>r\<in>set all_rotations.
           rotation_int r \<le> turnable_int (turnable (get_instance t)) \<and>
           is_move_valid (board s) (Move_make (Square x y) t r) p))"

text \<open>
  The history entry is marked removed: an equal (player, move) pair is in the list of
  removed moves.
\<close>

definition marked_removed :: "CathedralState \<Rightarrow> Player \<Rightarrow> Move \<Rightarrow> bool" where
  "marked_removed s p m =
     (\<exists>r\<in>set (removed_moves s).
        player r = p \<and> building_type (move r) = building_type m \<and>
        rotation (move r) = rotation m \<and> pos (move r) = pos m)"

text \<open>
  The enemy buildings of a region in a sweep for a colour: the historical moves that are
  not marked removed, have their anchor in the region and a placed colour other than
  the colour of the sweep, in the order of the history.
\<close>

definition enemy_moves ::
    "CathedralState \<Rightarrow> Square list \<Rightarrow> CellState \<Rightarrow> (Player \<times> Action) list \<Rightarrow> PlayerMove list" where
  "enemy_moves s region c pas =
     concat (map (\<lambda>pa. case Move_of_action (snd pa) of
                          Inl e \<Rightarrow> []
                        | Inr m \<Rightarrow>
                            if \<not> marked_removed s (fst pa) m \<and> pos m \<in> set region
                               \<and> get_square_color m (fst pa) \<noteq> c
                            then [\<lparr> player = fst pa, move = m \<rparr>] else [])
                 pas)"

text \<open>
  The squares that the historical moves of one colour occupy, removed moves left out.
\<close>

definition squares_placed ::
    "CathedralState \<Rightarrow> CellState \<Rightarrow> (Player \<times> Action) list \<Rightarrow> int" where
  "squares_placed s c pas =
     sum_list (map (\<lambda>pa. case Move_of_action (snd pa) of
                            Inl e \<Rightarrow> 0
                          | Inr m \<Rightarrow>
                              if \<not> marked_removed s (fst pa) m
                                 \<and> get_square_color m (fst pa) = c
                              then int (length (form m)) else 0)
                   pas)"

text \<open>
  The positions of play: the initial state, and every state that a legal action of a
  position leads to.
\<close>

inductive reachable :: "CathedralState \<Rightarrow> bool" where
  initial: "reachable CathedralState_ctor"
| step: "reachable s \<Longrightarrow> a \<in> set (LegalActions s) \<Longrightarrow> ApplyAction s a = Inr s'
         \<Longrightarrow> reachable s'"

text \<open>
  A legal action of a position, decided without listing all of them: the action decodes
  to a move of the current player's that has its anchor on the board, a piece left in
  the inventory and a form that fits the board; the opening move is the Cathedral.
\<close>

definition is_legal_action :: "CathedralState \<Rightarrow> Action \<Rightarrow> bool" where
  "is_legal_action s a =
     (case Move_of_action a of
        Inl e \<Rightarrow> False
      | Inr m \<Rightarrow>
          is_on_board (pos m)
          \<and> is_building_available (players s ! nat (current_player s)) (building_type m)
          \<and> is_move_valid (board s) m (current_player s)
          \<and> (if get_move_count s = 0 then building_type m = Cathedral else True))"

text \<open>Playing a list of actions, each of which has to be legal where it is played.\<close>

fun play_legal :: "CathedralState \<Rightarrow> Action list \<Rightarrow> CathedralState option" where
  "play_legal s [] = Some s"
| "play_legal s (a # as) =
     (if is_legal_action s a
      then (case ApplyAction s a of Inl e \<Rightarrow> None | Inr s' \<Rightarrow> play_legal s' as)
      else None)"

text \<open>The same with the history entry appended before the move is applied.\<close>

fun play_legal_entry_first :: "CathedralState \<Rightarrow> Action list \<Rightarrow> CathedralState option" where
  "play_legal_entry_first s [] = Some s"
| "play_legal_entry_first s (a # as) =
     (if is_legal_action s a
      then (case ApplyAction_entry_first s a of
              Inl e \<Rightarrow> None
            | Inr s' \<Rightarrow> play_legal_entry_first s' as)
      else None)"

section \<open>Positions of two games\<close>

text \<open>
  A game of 18 legal actions. The Cathedral, a black Inn that cuts off the corner square
  (0, 0), a white Tavern on that square, a black Tavern; then white, the only player who
  can still move, places the other fourteen pieces.
\<close>

definition finished_game :: "Action list" where
  "finished_game =
     [5255, 901, 0, 99, 4912, 4415, 4037, 3742, 2955, 2066, 1662, 1382, 978, 1085, 508,
      458, 1, 10]"

text \<open>The position after the opening action 5255, the Cathedral at (5, 5): black is to move.\<close>

definition position_after_cathedral :: CathedralState where
  "position_after_cathedral =
     \<lparr> history = [(0, 5255)],
       move_number = 1,
       players =
         [\<lparr> available_buildings = [2, 2, 2, 1, 1, 1, 0, 1, 0, 1, 1, 1, 1, 0],
            specific_building_types = white_specific_buildings \<rparr>,
          \<lparr> available_buildings = [2, 2, 2, 1, 1, 1, 1, 0, 1, 0, 1, 1, 1, 0],
            specific_building_types = black_specific_buildings \<rparr>],
       initial_board = Board_ctor,
       removed_moves =
         [],
       board =
         \<lparr> field =
           [replicate 10 EMPTY,
            replicate 10 EMPTY,
            replicate 10 EMPTY,
            replicate 10 EMPTY,
            [EMPTY, EMPTY, EMPTY, EMPTY, EMPTY, BLUE, EMPTY, EMPTY, EMPTY, EMPTY],
            [EMPTY, EMPTY, EMPTY, EMPTY, BLUE, BLUE, BLUE, EMPTY, EMPTY, EMPTY],
            [EMPTY, EMPTY, EMPTY, EMPTY, EMPTY, BLUE, EMPTY, EMPTY, EMPTY, EMPTY],
            [EMPTY, EMPTY, EMPTY, EMPTY, EMPTY, BLUE, EMPTY, EMPTY, EMPTY, EMPTY],
            replicate 10 EMPTY,
            replicate 10 EMPTY] \<rparr>,
       current_player = 1,
       outcome = kInvalidPlayer \<rparr>"

text \<open>The position after the actions 5255, 901 and 99: the Cathedral at (5, 5), a black Inn
  around the corner square (0, 0), a white Tavern at (9, 9).\<close>

definition position_before_fourth_move :: CathedralState where
  "position_before_fourth_move =
     \<lparr> history = [(0, 5255), (1, 901), (0, 99)],
       move_number = 3,
       players =
         [\<lparr> available_buildings = [1, 2, 2, 1, 1, 1, 0, 1, 0, 1, 1, 1, 1, 0],
            specific_building_types = white_specific_buildings \<rparr>,
          \<lparr> available_buildings = [2, 2, 1, 1, 1, 1, 1, 0, 1, 0, 1, 1, 1, 0],
            specific_building_types = black_specific_buildings \<rparr>],
       initial_board = Board_ctor,
       removed_moves =
         [],
       board =
         \<lparr> field =
           [[EMPTY, BLACK, EMPTY, EMPTY, EMPTY, EMPTY, EMPTY, EMPTY, EMPTY, EMPTY],
            [BLACK, BLACK, EMPTY, EMPTY, EMPTY, EMPTY, EMPTY, EMPTY, EMPTY, EMPTY],
            replicate 10 EMPTY,
            replicate 10 EMPTY,
            [EMPTY, EMPTY, EMPTY, EMPTY, EMPTY, BLUE, EMPTY, EMPTY, EMPTY, EMPTY],
            [EMPTY, EMPTY, EMPTY, EMPTY, BLUE, BLUE, BLUE, EMPTY, EMPTY, EMPTY],
            [EMPTY, EMPTY, EMPTY, EMPTY, EMPTY, BLUE, EMPTY, EMPTY, EMPTY, EMPTY],
            [EMPTY, EMPTY, EMPTY, EMPTY, EMPTY, BLUE, EMPTY, EMPTY, EMPTY, EMPTY],
            replicate 10 EMPTY,
            [EMPTY, EMPTY, EMPTY, EMPTY, EMPTY, EMPTY, EMPTY, EMPTY, EMPTY, WHITE]] \<rparr>,
       current_player = 1,
       outcome = kInvalidPlayer \<rparr>"

text \<open>The position after the fourth action 9, a black Tavern at (9, 0).\<close>

definition position_after_fourth_move :: CathedralState where
  "position_after_fourth_move =
     \<lparr> history = [(0, 5255), (1, 901), (0, 99), (1, 9)],
       move_number = 4,
       players =
         [\<lparr> available_buildings = [1, 2, 2, 1, 1, 1, 0, 1, 0, 1, 1, 1, 1, 0],
            specific_building_types = white_specific_buildings \<rparr>,
          \<lparr> available_buildings = [1, 2, 1, 1, 1, 1, 1, 0, 1, 0, 1, 1, 1, 0],
            specific_building_types = black_specific_buildings \<rparr>],
       initial_board = Board_ctor,
       removed_moves =
         [],
       board =
         \<lparr> field =
           [[BLACK_REGION, BLACK, EMPTY, EMPTY, EMPTY,
             EMPTY, EMPTY, EMPTY, EMPTY, BLACK],
            [BLACK, BLACK, EMPTY, EMPTY, EMPTY, EMPTY, EMPTY, EMPTY, EMPTY, EMPTY],
            replicate 10 EMPTY,
            replicate 10 EMPTY,
            [EMPTY, EMPTY, EMPTY, EMPTY, EMPTY, BLUE, EMPTY, EMPTY, EMPTY, EMPTY],
            [EMPTY, EMPTY, EMPTY, EMPTY, BLUE, BLUE, BLUE, EMPTY, EMPTY, EMPTY],
            [EMPTY, EMPTY, EMPTY, EMPTY, EMPTY, BLUE, EMPTY, EMPTY, EMPTY, EMPTY],
            [EMPTY, EMPTY, EMPTY, EMPTY, EMPTY, BLUE, EMPTY, EMPTY, EMPTY, EMPTY],
            replicate 10 EMPTY,
            [EMPTY, EMPTY, EMPTY, EMPTY, EMPTY, EMPTY, EMPTY, EMPTY, EMPTY, WHITE]] \<rparr>,
       current_player = 0,
       outcome = kInvalidPlayer \<rparr>"

text \<open>What \<open>undo_move\<close> leaves of the position after the fourth action.\<close>

definition position_after_undo :: CathedralState where
  "position_after_undo =
     \<lparr> history = [(0, 5255), (1, 901), (0, 99)],
       move_number = 3,
       players =
         [\<lparr> available_buildings = [1, 2, 2, 1, 1, 1, 0, 1, 0, 1, 1, 1, 1, 0],
            specific_building_types = white_specific_buildings \<rparr>,
          \<lparr> available_buildings = [2, 2, 1, 1, 1, 1, 1, 0, 1, 0, 1, 1, 1, 0],
            specific_building_types = black_specific_buildings \<rparr>],
       initial_board = Board_ctor,
       removed_moves =
         [],
       board =
         \<lparr> field =
           [[BLACK_REGION, BLACK, EMPTY, EMPTY, EMPTY,
             EMPTY, EMPTY, EMPTY, EMPTY, EMPTY],
            [BLACK, BLACK, EMPTY, EMPTY, EMPTY, EMPTY, EMPTY, EMPTY, EMPTY, EMPTY],
            replicate 10 EMPTY,
            replicate 10 EMPTY,
            [EMPTY, EMPTY, EMPTY, EMPTY, EMPTY, BLUE, EMPTY, EMPTY, EMPTY, EMPTY],
            [EMPTY, EMPTY, EMPTY, EMPTY, BLUE, BLUE, BLUE, EMPTY, EMPTY, EMPTY],
            [EMPTY, EMPTY, EMPTY, EMPTY, EMPTY, BLUE, EMPTY, EMPTY, EMPTY, EMPTY],
            [EMPTY, EMPTY, EMPTY, EMPTY, EMPTY, BLUE, EMPTY, EMPTY, EMPTY, EMPTY],
            replicate 10 EMPTY,
            [EMPTY, EMPTY, EMPTY, EMPTY, EMPTY, EMPTY, EMPTY, EMPTY, EMPTY, WHITE]] \<rparr>,
       current_player = 1,
       outcome = kInvalidPlayer \<rparr>"

text \<open>The position after the actions 5255, 901 and 0: the white Tavern stands on the corner
  square (0, 0), which the black Inn cuts off.\<close>

definition pocket_position :: CathedralState where
  "pocket_position =
     \<lparr> history = [(0, 5255), (1, 901), (0, 0)],
       move_number = 3,
       players =
         [\<lparr> available_buildings = [1, 2, 2, 1, 1, 1, 0, 1, 0, 1, 1, 1, 1, 0],
            specific_building_types = white_specific_buildings \<rparr>,
          \<lparr> available_buildings = [2, 2, 1, 1, 1, 1, 1, 0, 1, 0, 1, 1, 1, 0],
            specific_building_types = black_specific_buildings \<rparr>],
       initial_board = Board_ctor,
       removed_moves =
         [],
       board =
         \<lparr> field =
           [[WHITE, BLACK, EMPTY, EMPTY, EMPTY, EMPTY, EMPTY, EMPTY, EMPTY, EMPTY],
            [BLACK, BLACK, EMPTY, EMPTY, EMPTY, EMPTY, EMPTY, EMPTY, EMPTY, EMPTY],
            replicate 10 EMPTY,
            replicate 10 EMPTY,
            [EMPTY, EMPTY, EMPTY, EMPTY, EMPTY, BLUE, EMPTY, EMPTY, EMPTY, EMPTY],
            [EMPTY, EMPTY, EMPTY, EMPTY, BLUE, BLUE, BLUE, EMPTY, EMPTY, EMPTY],
            [EMPTY, EMPTY, EMPTY, EMPTY, EMPTY, BLUE, EMPTY, EMPTY, EMPTY, EMPTY],
            [EMPTY, EMPTY, EMPTY, EMPTY, EMPTY, BLUE, EMPTY, EMPTY, EMPTY, EMPTY],
            replicate 10 EMPTY,
            replicate 10 EMPTY] \<rparr>,
       current_player = 1,
       outcome = kInvalidPlayer \<rparr>"

text \<open>The position after the further action 99, a black Tavern at (9, 9): the fourth move
  runs the region sweep, which captures the whole board for white.\<close>

definition captured_position :: CathedralState where
  "captured_position =
     \<lparr> history = [(0, 5255), (1, 901), (0, 0), (1, 99)],
       move_number = 4,
       players =
         [\<lparr> available_buildings = [2, 2, 2, 1, 1, 1, 0, 1, 0, 1, 1, 1, 1, 0],
            specific_building_types = white_specific_buildings \<rparr>,
          \<lparr> available_buildings = [1, 2, 2, 1, 1, 1, 1, 0, 1, 0, 1, 1, 1, 0],
            specific_building_types = black_specific_buildings \<rparr>],
       initial_board = Board_ctor,
       removed_moves =
         [\<lparr> player = 0, move = Move_make (Square 0 0) Tavern ROTATE_0 \<rparr>,
           \<lparr> player = 0, move = Move_make (Square 5 5) Cathedral ROTATE_0 \<rparr>,
           \<lparr> player = 1, move = Move_make (Square 1 0) Inn ROTATE_90 \<rparr>],
       board =
         \<lparr> field =
           [replicate 10 WHITE_REGION,
            replicate 10 WHITE_REGION,
            replicate 10 WHITE_REGION,
            replicate 10 WHITE_REGION,
            replicate 10 WHITE_REGION,
            replicate 10 WHITE_REGION,
            replicate 10 WHITE_REGION,
            replicate 10 WHITE_REGION,
            replicate 10 WHITE_REGION,
            replicate 10 WHITE_REGION] \<rparr>,
       current_player = 0,
       outcome = kInvalidPlayer \<rparr>"

text \<open>The position at the end of the game \<open>finished_game\<close>: white has placed every piece.\<close>

definition final_position :: CathedralState where
  "final_position =
     \<lparr> history = [(0, 5255), (1, 901), (0, 0), (1, 99), (0, 4912), (0, 4415),
                  (0, 4037), (0, 3742), (0, 2955), (0, 2066), (0, 1662), (0, 1382),
                  (0, 978), (0, 1085), (0, 508), (0, 458), (0, 1), (0, 10)],
       move_number = 18,
       players =
         [\<lparr> available_buildings = [0, 0, 0, 0, 0, 0, 0, 0, 0, 0, 0, 0, 0, 0],
            specific_building_types = white_specific_buildings \<rparr>,
          \<lparr> available_buildings = [1, 2, 2, 1, 1, 1, 1, 0, 1, 0, 1, 1, 1, 0],
            specific_building_types = black_specific_buildings \<rparr>],
       initial_board = Board_ctor,
       removed_moves =
         [\<lparr> player = 0, move = Move_make (Square 0 0) Tavern ROTATE_0 \<rparr>,
           \<lparr> player = 0, move = Move_make (Square 5 5) Cathedral ROTATE_0 \<rparr>,
           \<lparr> player = 1, move = Move_make (Square 1 0) Inn ROTATE_90 \<rparr>],
       board =
         \<lparr> field =
           [[WHITE_REGION, WHITE, WHITE_REGION, WHITE, WHITE_REGION,
             WHITE_REGION, WHITE_REGION, WHITE_REGION, WHITE, WHITE_REGION],
            [WHITE, WHITE_REGION, WHITE, WHITE, WHITE,
             WHITE, WHITE, WHITE_REGION, WHITE, WHITE_REGION],
            [WHITE_REGION, WHITE, WHITE, WHITE_REGION, WHITE,
             WHITE_REGION, WHITE, WHITE, WHITE_REGION, WHITE_REGION],
            [WHITE_REGION, WHITE_REGION, WHITE_REGION, WHITE, WHITE_REGION,
             WHITE_REGION, WHITE, WHITE, WHITE, WHITE_REGION],
            [WHITE_REGION, WHITE, WHITE, WHITE, WHITE,
             WHITE_REGION, WHITE_REGION, WHITE, WHITE_REGION, WHITE_REGION],
            [WHITE_REGION, WHITE_REGION, WHITE, WHITE_REGION, WHITE,
             WHITE, WHITE_REGION, WHITE_REGION, WHITE, WHITE],
            [WHITE_REGION, WHITE, WHITE, WHITE, WHITE_REGION,
             WHITE, WHITE, WHITE, WHITE_REGION, WHITE_REGION],
            [WHITE_REGION, WHITE_REGION, WHITE, WHITE_REGION, WHITE,
             WHITE_REGION, WHITE, WHITE, WHITE, WHITE_REGION],
            [WHITE_REGION, WHITE, WHITE, WHITE, WHITE,
             WHITE, WHITE_REGION, WHITE, WHITE, WHITE_REGION],
            replicate 10 WHITE_REGION] \<rparr>,
       current_player = 0,
       outcome = kInvalidPlayer \<rparr>"

text \<open>What \<open>undo_move\<close> leaves of \<open>captured_position\<close> after the further action 4912, a white
  Tower.\<close>

definition capture_undone :: CathedralState where
  "capture_undone =
     \<lparr> history = [(0, 5255), (1, 901), (0, 0), (1, 99)],
       move_number = 4,
       players =
         [\<lparr> available_buildings = [3, 2, 2, 1, 1, 1, 0, 1, 0, 1, 1, 1, 1, 0],
            specific_building_types = white_specific_buildings \<rparr>,
          \<lparr> available_buildings = [0, 2, 1, 1, 1, 1, 1, 0, 1, 0, 1, 1, 1, 0],
            specific_building_types = black_specific_buildings \<rparr>],
       initial_board = Board_ctor,
       removed_moves =
         [\<lparr> player = 0, move = Move_make (Square 0 0) Tavern ROTATE_0 \<rparr>,
           \<lparr> player = 0, move = Move_make (Square 5 5) Cathedral ROTATE_0 \<rparr>],
       board =
         \<lparr> field =
           [[BLACK, BLACK, BLACK_REGION, BLACK_REGION, BLACK_REGION,
             BLACK_REGION, BLACK_REGION, BLACK_REGION, BLACK_REGION, BLACK_REGION],
            [BLACK, BLACK, BLACK_REGION, BLACK_REGION, BLACK_REGION,
             BLACK_REGION, BLACK_REGION, BLACK_REGION, BLACK_REGION, BLACK_REGION],
            replicate 10 BLACK_REGION,
            replicate 10 BLACK_REGION,
            replicate 10 BLACK_REGION,
            replicate 10 BLACK_REGION,
            replicate 10 BLACK_REGION,
            replicate 10 BLACK_REGION,
            replicate 10 BLACK_REGION,
            [BLACK_REGION, BLACK_REGION, BLACK_REGION, BLACK_REGION, BLACK_REGION,
             BLACK_REGION, BLACK_REGION, BLACK_REGION, BLACK_REGION, BLACK]] \<rparr>,
       current_player = 1,
       outcome = kInvalidPlayer \<rparr>"

text \<open>The position after the actions 5255, 901, 0 and 99 when the history entry is appended
  before the move is applied: the sweep runs at the third move, and the fourth move is
  white's.\<close>

definition captured_position_entry_first :: CathedralState where
  "captured_position_entry_first =
     \<lparr> history = [(0, 5255), (1, 901), (0, 0), (0, 99)],
       move_number = 4,
       players =
         [\<lparr> available_buildings = [2, 2, 2, 1, 1, 1, 0, 1, 0, 1, 1, 1, 1, 0],
            specific_building_types = white_specific_buildings \<rparr>,
          \<lparr> available_buildings = [2, 2, 2, 1, 1, 1, 1, 0, 1, 0, 1, 1, 1, 0],
            specific_building_types = black_specific_buildings \<rparr>],
       initial_board = Board_ctor,
       removed_moves =
         [\<lparr> player = 0, move = Move_make (Square 0 0) Tavern ROTATE_0 \<rparr>,
           \<lparr> player = 0, move = Move_make (Square 5 5) Cathedral ROTATE_0 \<rparr>,
           \<lparr> player = 1, move = Move_make (Square 1 0) Inn ROTATE_90 \<rparr>,
           \<lparr> player = 0, move = Move_make (Square 9 9) Tavern ROTATE_0 \<rparr>],
       board =
         \<lparr> field =
           [replicate 10 WHITE_REGION,
            replicate 10 WHITE_REGION,
            replicate 10 WHITE_REGION,
            replicate 10 WHITE_REGION,
            replicate 10 WHITE_REGION,
            replicate 10 WHITE_REGION,
            replicate 10 WHITE_REGION,
            replicate 10 WHITE_REGION,
            replicate 10 WHITE_REGION,
            replicate 10 WHITE_REGION] \<rparr>,
       current_player = 0,
       outcome = kInvalidPlayer \<rparr>"

text \<open>What \<open>undo_move\<close> leaves of \<open>captured_position_entry_first\<close> after the further action
  4912.\<close>

definition capture_undone_entry_first :: CathedralState where
  "capture_undone_entry_first =
     \<lparr> history = [(0, 5255), (1, 901), (0, 0), (0, 99)],
       move_number = 4,
       players =
         [\<lparr> available_buildings = [2, 2, 2, 1, 1, 1, 0, 1, 0, 1, 1, 1, 1, 0],
            specific_building_types = white_specific_buildings \<rparr>,
          \<lparr> available_buildings = [1, 2, 2, 1, 1, 1, 1, 0, 1, 0, 1, 1, 1, 0],
            specific_building_types = black_specific_buildings \<rparr>],
       initial_board = Board_ctor,
       removed_moves =
         [\<lparr> player = 0, move = Move_make (Square 0 0) Tavern ROTATE_0 \<rparr>,
           \<lparr> player = 0, move = Move_make (Square 5 5) Cathedral ROTATE_0 \<rparr>,
           \<lparr> player = 1, move = Move_make (Square 1 0) Inn ROTATE_90 \<rparr>],
       board =
         \<lparr> field =
           [replicate 10 WHITE_REGION,
            replicate 10 WHITE_REGION,
            replicate 10 WHITE_REGION,
            replicate 10 WHITE_REGION,
            replicate 10 WHITE_REGION,
            replicate 10 WHITE_REGION,
            replicate 10 WHITE_REGION,
            replicate 10 WHITE_REGION,
            replicate 10 WHITE_REGION,
            replicate 10 WHITE_REGION] \<rparr>,
       current_player = 0,
       outcome = kInvalidPlayer \<rparr>"

section \<open>The cached catalogue\<close>

text \<open>
  The catalogue as \<open>get_instance\<close> caches it: the 14 buildings with their rotated forms
  and their corners, computed once.
\<close>

lemma create_instances_cached [code]:
  "create_instances =
    [\<lparr>how_many = 2, turnable = NO, default_form = [Square 0 0], pre_calculated_forms = [[Square 0 0]],
    pre_calculated_corners = [[Square 0 (- 1), Square (- 1) 0, Square 1 0, Square 0 1]]\<rparr>,
    \<lparr>how_many = 2, turnable = HALF, default_form = [Square 0 0, Square 1 0],
    pre_calculated_forms = [[Square 0 0, Square 1 0], [Square 0 0, Square 0 1]],
    pre_calculated_corners =
    [[Square 0 (- 1), Square 1 (- 1), Square (- 1) 0, Square 2 0, Square 0 1, Square 1 1],
    [Square 0 (- 1), Square (- 1) 0, Square 1 0, Square (- 1) 1, Square 1 1, Square 0 2]]\<rparr>,
    \<lparr>how_many = 2, turnable = FULL, default_form = [Square 0 0, Square 1 0, Square 1 1],
    pre_calculated_forms =
    [[Square 0 0, Square 1 0, Square 1 1], [Square 0 0, Square 0 1, Square (- 1) 1],
    [Square 0 0, Square (- 1) 0, Square (- 1) (- 1)],
    [Square 0 0, Square 0 (- 1), Square 1 (- 1)]],
    pre_calculated_corners =
    [[Square 0 (- 1), Square 1 (- 1), Square (- 1) 0, Square 2 0, Square 0 1, Square 2 1,
    Square 1 2],
    [Square 0 (- 1), Square (- 1) 0, Square 1 0, Square (- 2) 1, Square 1 1, Square (- 1) 2,
    Square 0 2],
    [Square (- 1) (- 2), Square (- 2) (- 1), Square 0 (- 1), Square (- 2) 0, Square 1 0,
    Square (- 1) 1, Square 0 1],
    [Square 0 (- 2), Square 1 (- 2), Square (- 1) (- 1), Square 2 (- 1), Square (- 1) 0,
    Square 1 0, Square 0 1]]\<rparr>,
    \<lparr>how_many = 1, turnable = HALF, default_form = [Square 0 0, Square 0 (- 1), Square 0 1],
    pre_calculated_forms =
    [[Square 0 0, Square 0 (- 1), Square 0 1], [Square 0 0, Square 1 0, Square (- 1) 0]],
    pre_calculated_corners =
    [[Square 0 (- 2), Square (- 1) (- 1), Square 1 (- 1), Square (- 1) 0, Square 1 0,
    Square (- 1) 1, Square 1 1, Square 0 2],
    [Square (- 1) (- 1), Square 0 (- 1), Square 1 (- 1), Square (- 2) 0, Square 2 0,
    Square (- 1) 1, Square 0 1, Square 1 1]]\<rparr>,
    \<lparr>how_many = 1, turnable = FULL,
    default_form = [Square (- 1) 0, Square 0 0, Square 1 0, Square 0 1],
    pre_calculated_forms =
    [[Square (- 1) 0, Square 0 0, Square 1 0, Square 0 1],
    [Square 0 (- 1), Square 0 0, Square 0 1, Square (- 1) 0],
    [Square 1 0, Square 0 0, Square (- 1) 0, Square 0 (- 1)],
    [Square 0 1, Square 0 0, Square 0 (- 1), Square 1 0]],
    pre_calculated_corners =
    [[Square (- 1) (- 1), Square 0 (- 1), Square 1 (- 1), Square (- 2) 0, Square 2 0,
    Square (- 1) 1, Square 1 1, Square 0 2],
    [Square 0 (- 2), Square (- 1) (- 1), Square 1 (- 1), Square (- 2) 0, Square 1 0,
    Square (- 1) 1, Square 1 1, Square 0 2],
    [Square 0 (- 2), Square (- 1) (- 1), Square 1 (- 1), Square (- 2) 0, Square 2 0,
    Square (- 1) 1, Square 0 1, Square 1 1],
    [Square 0 (- 2), Square (- 1) (- 1), Square 1 (- 1), Square (- 1) 0, Square 2 0,
    Square (- 1) 1, Square 1 1, Square 0 2]]\<rparr>,
    \<lparr>how_many = 1, turnable = NO, default_form = [Square 0 0, Square 0 1, Square 1 0, Square 1 1],
    pre_calculated_forms = [[Square 0 0, Square 0 1, Square 1 0, Square 1 1]],
    pre_calculated_corners =
    [[Square 0 (- 1), Square 1 (- 1), Square (- 1) 0, Square 2 0, Square (- 1) 1, Square 2 1,
    Square 0 2, Square 1 2]]\<rparr>,
    \<lparr>how_many = 1, turnable = HALF,
    default_form = [Square (- 1) 0, Square 0 0, Square 0 1, Square 1 1],
    pre_calculated_forms =
    [[Square (- 1) 0, Square 0 0, Square 0 1, Square 1 1],
    [Square 0 (- 1), Square 0 0, Square (- 1) 0, Square (- 1) 1]],
    pre_calculated_corners =
    [[Square (- 1) (- 1), Square 0 (- 1), Square (- 2) 0, Square 1 0, Square (- 1) 1, Square 2 1,
    Square 0 2, Square 1 2],
    [Square 0 (- 2), Square (- 1) (- 1), Square 1 (- 1), Square (- 2) 0, Square 1 0,
    Square (- 2) 1, Square 0 1, Square (- 1) 2]]\<rparr>,
    \<lparr>how_many = 1, turnable = HALF,
    default_form = [Square (- 1) 1, Square 0 0, Square 0 1, Square 1 0],
    pre_calculated_forms =
    [[Square (- 1) 1, Square 0 0, Square 0 1, Square 1 0],
    [Square (- 1) (- 1), Square 0 0, Square (- 1) 0, Square 0 1]],
    pre_calculated_corners =
    [[Square 0 (- 1), Square 1 (- 1), Square (- 1) 0, Square 2 0, Square (- 2) 1, Square 1 1,
    Square (- 1) 2, Square 0 2],
    [Square (- 1) (- 2), Square (- 2) (- 1), Square 0 (- 1), Square (- 2) 0, Square 1 0,
    Square (- 1) 1, Square 1 1, Square 0 2]]\<rparr>,
    \<lparr>how_many = 1, turnable = FULL,
    default_form = [Square (- 1) 0, Square 0 (- 1), Square 0 0, Square 0 1, Square 1 (- 1)],
    pre_calculated_forms =
    [[Square (- 1) 0, Square 0 (- 1), Square 0 0, Square 0 1, Square 1 (- 1)],
    [Square 0 (- 1), Square 1 0, Square 0 0, Square (- 1) 0, Square 1 1],
    [Square 1 0, Square 0 1, Square 0 0, Square 0 (- 1), Square (- 1) 1],
    [Square 0 1, Square (- 1) 0, Square 0 0, Square 1 0, Square (- 1) (- 1)]],
    pre_calculated_corners =
    [[Square 0 (- 2), Square 1 (- 2), Square (- 1) (- 1), Square 2 (- 1), Square (- 2) 0,
    Square 1 0, Square (- 1) 1, Square 1 1, Square 0 2],
    [Square 0 (- 2), Square (- 1) (- 1), Square 1 (- 1), Square (- 2) 0, Square 2 0,
    Square (- 1) 1, Square 0 1, Square 2 1, Square 1 2],
    [Square 0 (- 2), Square (- 1) (- 1), Square 1 (- 1), Square (- 1) 0, Square 2 0,
    Square (- 2) 1, Square 1 1, Square (- 1) 2, Square 0 2],
    [Square (- 1) (- 2), Square (- 2) (- 1), Square 0 (- 1), Square 1 (- 1), Square (- 2) 0,
    Square 2 0, Square (- 1) 1, Square 1 1, Square 0 2]]\<rparr>,
    \<lparr>how_many = 1, turnable = FULL,
    default_form = [Square (- 1) (- 1), Square 0 (- 1), Square 0 0, Square 0 1, Square 1 0],
    pre_calculated_forms =
    [[Square (- 1) (- 1), Square 0 (- 1), Square 0 0, Square 0 1, Square 1 0],
    [Square 1 (- 1), Square 1 0, Square 0 0, Square (- 1) 0, Square 0 1],
    [Square 1 1, Square 0 1, Square 0 0, Square 0 (- 1), Square (- 1) 0],
    [Square (- 1) 1, Square (- 1) 0, Square 0 0, Square 1 0, Square 0 (- 1)]],
    pre_calculated_corners =
    [[Square (- 1) (- 2), Square 0 (- 2), Square (- 2) (- 1), Square 1 (- 1), Square (- 1) 0,
    Square 2 0, Square (- 1) 1, Square 1 1, Square 0 2],
    [Square 1 (- 2), Square (- 1) (- 1), Square 0 (- 1), Square 2 (- 1), Square (- 2) 0,
    Square 2 0, Square (- 1) 1, Square 1 1, Square 0 2],
    [Square 0 (- 2), Square (- 1) (- 1), Square 1 (- 1), Square (- 2) 0, Square 1 0,
    Square (- 1) 1, Square 2 1, Square 0 2, Square 1 2],
    [Square 0 (- 2), Square (- 1) (- 1), Square 1 (- 1), Square (- 2) 0, Square 2 0,
    Square (- 2) 1, Square 0 1, Square 1 1, Square (- 1) 2]]\<rparr>,
    \<lparr>how_many = 1, turnable = NO,
    default_form = [Square (- 1) 0, Square 0 (- 1), Square 0 0, Square 0 1, Square 1 0],
    pre_calculated_forms = [[Square (- 1) 0, Square 0 (- 1), Square 0 0, Square 0 1, Square 1 0]],
    pre_calculated_corners =
    [[Square 0 (- 2), Square (- 1) (- 1), Square 1 (- 1), Square (- 2) 0, Square 2 0,
    Square (- 1) 1, Square 1 1, Square 0 2]]\<rparr>,
    \<lparr>how_many = 1, turnable = FULL,
    default_form = [Square (- 1) 0, Square (- 1) 1, Square 0 0, Square 1 0, Square 1 1],
    pre_calculated_forms =
    [[Square (- 1) 0, Square (- 1) 1, Square 0 0, Square 1 0, Square 1 1],
    [Square 0 (- 1), Square (- 1) (- 1), Square 0 0, Square 0 1, Square (- 1) 1],
    [Square 1 0, Square 1 (- 1), Square 0 0, Square (- 1) 0, Square (- 1) (- 1)],
    [Square 0 1, Square 1 1, Square 0 0, Square 0 (- 1), Square 1 (- 1)]],
    pre_calculated_corners =
    [[Square (- 1) (- 1), Square 0 (- 1), Square 1 (- 1), Square (- 2) 0, Square 2 0,
    Square (- 2) 1, Square 0 1, Square 2 1, Square (- 1) 2, Square 1 2],
    [Square (- 1) (- 2), Square 0 (- 2), Square (- 2) (- 1), Square 1 (- 1), Square (- 1) 0,
    Square 1 0, Square (- 2) 1, Square 1 1, Square (- 1) 2, Square 0 2],
    [Square (- 1) (- 2), Square 1 (- 2), Square (- 2) (- 1), Square 0 (- 1), Square 2 (- 1),
    Square (- 2) 0, Square 2 0, Square (- 1) 1, Square 0 1, Square 1 1],
    [Square 0 (- 2), Square 1 (- 2), Square (- 1) (- 1), Square 2 (- 1), Square (- 1) 0,
    Square 1 0, Square (- 1) 1, Square 2 1, Square 0 2, Square 1 2]]\<rparr>,
    \<lparr>how_many = 1, turnable = FULL,
    default_form = [Square (- 1) (- 1), Square 0 (- 1), Square 0 0, Square 1 0, Square 1 1],
    pre_calculated_forms =
    [[Square (- 1) (- 1), Square 0 (- 1), Square 0 0, Square 1 0, Square 1 1],
    [Square 1 (- 1), Square 1 0, Square 0 0, Square 0 1, Square (- 1) 1],
    [Square 1 1, Square 0 1, Square 0 0, Square (- 1) 0, Square (- 1) (- 1)],
    [Square (- 1) 1, Square (- 1) 0, Square 0 0, Square 0 (- 1), Square 1 (- 1)]],
    pre_calculated_corners =
    [[Square (- 1) (- 2), Square 0 (- 2), Square (- 2) (- 1), Square 1 (- 1), Square (- 1) 0,
    Square 2 0, Square 0 1, Square 2 1, Square 1 2],
    [Square 1 (- 2), Square 0 (- 1), Square 2 (- 1), Square (- 1) 0, Square 2 0, Square (- 2) 1,
    Square 1 1, Square (- 1) 2, Square 0 2],
    [Square (- 1) (- 2), Square (- 2) (- 1), Square 0 (- 1), Square (- 2) 0, Square 1 0,
    Square (- 1) 1, Square 2 1, Square 0 2, Square 1 2],
    [Square 0 (- 2), Square 1 (- 2), Square (- 1) (- 1), Square 2 (- 1), Square (- 2) 0,
    Square 1 0, Square (- 2) 1, Square 0 1, Square (- 1) 2]]\<rparr>,
    \<lparr>how_many = 1, turnable = FULL,
    default_form =
    [Square (- 1) 0, Square 0 (- 1), Square 0 0, Square 0 1, Square 0 2, Square 1 0],
    pre_calculated_forms =
    [[Square (- 1) 0, Square 0 (- 1), Square 0 0, Square 0 1, Square 0 2, Square 1 0],
    [Square 0 (- 1), Square 1 0, Square 0 0, Square (- 1) 0, Square (- 2) 0, Square 0 1],
    [Square 1 0, Square 0 1, Square 0 0, Square 0 (- 1), Square 0 (- 2), Square (- 1) 0],
    [Square 0 1, Square (- 1) 0, Square 0 0, Square 1 0, Square 2 0, Square 0 (- 1)]],
    pre_calculated_corners =
    [[Square 0 (- 2), Square (- 1) (- 1), Square 1 (- 1), Square (- 2) 0, Square 2 0,
    Square (- 1) 1, Square 1 1, Square (- 1) 2, Square 1 2, Square 0 3],
    [Square 0 (- 2), Square (- 2) (- 1), Square (- 1) (- 1), Square 1 (- 1), Square (- 3) 0,
    Square 2 0, Square (- 2) 1, Square (- 1) 1, Square 1 1, Square 0 2],
    [Square 0 (- 3), Square (- 1) (- 2), Square 1 (- 2), Square (- 1) (- 1), Square 1 (- 1),
    Square (- 2) 0, Square 2 0, Square (- 1) 1, Square 1 1, Square 0 2],
    [Square 0 (- 2), Square (- 1) (- 1), Square 1 (- 1), Square 2 (- 1), Square (- 2) 0,
    Square 3 0, Square (- 1) 1, Square 1 1, Square 2 1, Square 0 2]]\<rparr>]"
  by code_simp

section \<open>Corners of a building (claim C5)\<close>

lemma square_less_total: "\<not> square_less a b \<Longrightarrow> \<not> square_less b a \<Longrightarrow> a = b"
  by (cases a; cases b) (auto simp: square_less_def split: if_splits)

lemma square_less_irrefl: "\<not> square_less a a"
  by (simp add: square_less_def)

lemma square_less_trans: "square_less a b \<Longrightarrow> square_less b c \<Longrightarrow> square_less a c"
  by (auto simp: square_less_def split: if_splits)

lemma square_less_asym: "square_less a b \<Longrightarrow> \<not> square_less b a"
  by (auto simp: square_less_def split: if_splits)

lemma set_set_insert: "set (set_insert s xs) = insert s (set xs)"
  by (induction xs) (auto dest: square_less_total)

lemma sorted_set_insert:
  "sorted_wrt square_less xs \<Longrightarrow> sorted_wrt square_less (set_insert s xs)"
proof (induction xs)
  case Nil
  then show ?case by simp
next
  case (Cons t ts)
  then show ?case
    by (auto simp: set_set_insert dest: square_less_total intro: square_less_trans)
qed

lemma set_set_erase:
  "sorted_wrt square_less xs \<Longrightarrow> set (set_erase s xs) = set xs - {s}"
proof (induction xs)
  case Nil
  then show ?case by simp
next
  case (Cons t ts)
  have notin: "t \<notin> set ts"
    using Cons.prems square_less_irrefl by auto
  show ?case
  proof (cases "square_less s t")
    case True
    then have "s \<noteq> t" using square_less_irrefl by auto
    moreover have "s \<notin> set ts"
      using True Cons.prems square_less_asym square_less_trans by (metis sorted_wrt.simps(2))
    ultimately show ?thesis using True by auto
  next
    case False
    show ?thesis
    proof (cases "square_less t s")
      case True
      then have "s \<noteq> t" using square_less_irrefl by auto
      with True False Cons show ?thesis by auto
    next
      case F2: False
      with False have "s = t" by (rule square_less_total)
      with False F2 notin show ?thesis by auto
    qed
  qed
qed

lemma sorted_set_erase:
  "sorted_wrt square_less xs \<Longrightarrow> sorted_wrt square_less (set_erase s xs)"
proof (induction xs)
  case Nil
  then show ?case by simp
next
  case (Cons t ts)
  then show ?case by (auto simp: set_set_erase)
qed

lemma insert_neighbours_set:
  "set (insert_neighbours s cs) =
     {Square (sq_x s) (sq_y s - 1), Square (sq_x s) (sq_y s + 1),
      Square (sq_x s - 1) (sq_y s), Square (sq_x s + 1) (sq_y s)} \<union> set cs"
  by (auto simp: insert_neighbours_def set_set_insert)

lemma insert_neighbours_sorted:
  "sorted_wrt square_less cs \<Longrightarrow> sorted_wrt square_less (insert_neighbours s cs)"
  by (simp add: insert_neighbours_def sorted_set_insert)

lemma neighbours_adjacent:
  "c \<in> {Square (sq_x s) (sq_y s - 1), Square (sq_x s) (sq_y s + 1),
      Square (sq_x s - 1) (sq_y s), Square (sq_x s + 1) (sq_y s)} \<longleftrightarrow> orthogonally_adjacent c s"
  by (cases c; cases s) (auto simp: orthogonally_adjacent_def)

lemma foldl_insert_neighbours:
  "sorted_wrt square_less acc \<Longrightarrow>
   sorted_wrt square_less (foldl (\<lambda>cs s. insert_neighbours s cs) acc frm) \<and>
   set (foldl (\<lambda>cs s. insert_neighbours s cs) acc frm) =
     set acc \<union> {c. \<exists>s\<in>set frm. orthogonally_adjacent c s}"
proof (induction frm arbitrary: acc)
  case Nil
  then show ?case by simp
next
  case (Cons a frm)
  from Cons.IH [OF insert_neighbours_sorted [OF Cons.prems, of a]]
  show ?case
    using neighbours_adjacent by (auto simp: insert_neighbours_set)
qed

lemma foldl_set_erase:
  "sorted_wrt square_less acc \<Longrightarrow>
   sorted_wrt square_less (foldl (\<lambda>cs s. set_erase s cs) acc frm) \<and>
   set (foldl (\<lambda>cs s. set_erase s cs) acc frm) = set acc - set frm"
proof (induction frm arbitrary: acc)
  case Nil
  then show ?case by simp
next
  case (Cons a frm)
  from Cons.IH [OF sorted_set_erase [OF Cons.prems, of a]]
  show ?case
    by (auto simp: set_set_erase [OF Cons.prems])
qed

lemma corners_of_form_set:
  "set (corners_of_form frm) =
     {c. (\<exists>s\<in>set frm. orthogonally_adjacent c s) \<and> c \<notin> set frm}"
proof -
  have s: "sorted_wrt square_less (foldl (\<lambda>cs s. insert_neighbours s cs) [] frm)"
    and e: "set (foldl (\<lambda>cs s. insert_neighbours s cs) [] frm) =
      {c. \<exists>s\<in>set frm. orthogonally_adjacent c s}"
    using foldl_insert_neighbours [of "[]" frm] by auto
  from foldl_set_erase [OF s, of frm] e show ?thesis
    by (auto simp: corners_of_form_def)
qed

lemma get_instance_built:
  "pre_calculated_forms (get_instance t) =
     pre_calculate_forms (turnable (get_instance t)) (default_form (get_instance t)) \<and>
   pre_calculated_corners (get_instance t) =
     pre_calculate_corners (pre_calculated_forms (get_instance t))"
  by (cases t) (simp_all add: get_instance_def create_instances_def Building_ctor_def Let_def)

lemma pre_calculate_forms_nth:
  "rotation_int r \<le> turnable_int t \<Longrightarrow>
   nat (rotation_int r) < length (pre_calculate_forms t frm) \<and>
   pre_calculate_forms t frm ! nat (rotation_int r) = rotate_form frm r"
  by (cases t; cases r) (simp_all add: pre_calculate_forms_def all_rotations_def)

lemma form_rel_legal:
  assumes "rotation_int r \<le> turnable_int (turnable (get_instance t))"
  shows "form_rel (get_instance t) r = rotate_form (default_form (get_instance t)) r"
    and "corners_rel (get_instance t) r = corners_of_form (form_rel (get_instance t) r)"
  using pre_calculate_forms_nth [OF assms, of "default_form (get_instance t)"]
    get_instance_built [of t]
  by (simp_all add: form_rel_def corners_rel_def pre_calculate_corners_def)

text \<open>
  Claim C5, as the code has it. For every building type and every rotation allowed for
  it, the precomputed corners are exactly the squares that share an edge with a square
  of the rotated form and are not part of the form; the rotated form is the default form
  rotated square by square, and \<open>corners(rotation, pos)\<close> and \<open>form(rotation, pos)\<close>
  are these lists translated by \<open>pos\<close>. Squares that touch the form at a vertex only are
  not corners.
\<close>

theorem corners_are_orthogonal_neighbours:
  assumes "rotation_int r \<le> turnable_int (turnable (get_instance t))"
  shows "set (corners_rel (get_instance t) r) =
           {c. (\<exists>s\<in>set (form_rel (get_instance t) r). orthogonally_adjacent c s)
               \<and> c \<notin> set (form_rel (get_instance t) r)}
         \<and> form_rel (get_instance t) r = map (\<lambda>s. rotate_sq s r) (default_form (get_instance t))
         \<and> corners_at (get_instance t) r p =
             map (\<lambda>c. square_plus c p) (corners_rel (get_instance t) r)
         \<and> form_at (get_instance t) r p =
             map (\<lambda>s. square_plus s p) (form_rel (get_instance t) r)"
  using form_rel_legal [OF assms]
  by (simp add: corners_of_form_set corners_at_def form_at_def translate_positions_def
      rotate_form_def)

theorem corners_are_orthogonal_neighbours_witness:
  "rotation_int ROTATE_90 \<le> turnable_int (turnable (get_instance Inn))
   \<and> set (corners_rel (get_instance Inn) ROTATE_90) =
         {c. (\<exists>s\<in>set (form_rel (get_instance Inn) ROTATE_90). orthogonally_adjacent c s)
             \<and> c \<notin> set (form_rel (get_instance Inn) ROTATE_90)}
   \<and> form_at (get_instance Inn) ROTATE_90 (Square 1 0) = [Square 1 0, Square 1 1, Square 0 1]
   \<and> corners_at (get_instance Inn) ROTATE_90 (Square 1 0) =
         map (\<lambda>c. square_plus c (Square 1 0)) (corners_rel (get_instance Inn) ROTATE_90)"
proof -
  have h: "rotation_int ROTATE_90 \<le> turnable_int (turnable (get_instance Inn))"
    by code_simp
  have f: "form_at (get_instance Inn) ROTATE_90 (Square 1 0) =
      [Square 1 0, Square 1 1, Square 0 1]"
    by code_simp
  note t = corners_are_orthogonal_neighbours [OF h, of "Square 1 0"]
  from t have c: "corners_at (get_instance Inn) ROTATE_90 (Square 1 0) =
      map (\<lambda>c. square_plus c (Square 1 0)) (corners_rel (get_instance Inn) ROTATE_90)"
    by blast
  show ?thesis
    by (intro conjI) (rule h, rule t [THEN conjunct1], rule f, rule c)
qed

text \<open>
  The Tavern is the single square (0, 0); the square (1, 1) touches it at a vertex and is
  not among its corners.
\<close>

theorem corners_miss_diagonal_neighbours:
  "rotation_int ROTATE_0 \<le> turnable_int (turnable (get_instance Tavern))
   \<and> form_rel (get_instance Tavern) ROTATE_0 = [Square 0 0]
   \<and> diagonally_adjacent (Square 1 1) (Square 0 0)
   \<and> Square 1 1 \<notin> set (form_rel (get_instance Tavern) ROTATE_0)
   \<and> Square 1 1 \<notin> set (corners_rel (get_instance Tavern) ROTATE_0)"
  by code_simp

section \<open>The encoding of moves (claim C4)\<close>

lemma sdiv_nonneg: "0 \<le> a \<Longrightarrow> 0 < b \<Longrightarrow> a sdiv b = a div (b::int)"
  by (simp add: signed_divide_int_def sgn_if)

lemma smod_nonneg: "0 \<le> a \<Longrightarrow> 0 < b \<Longrightarrow> a smod b = a mod (b::int)"
  by (simp add: signed_modulo_int_def sgn_if)

lemma sdiv_nonpos: "a \<le> 0 \<Longrightarrow> 0 < b \<Longrightarrow> a sdiv b = - ((- a) div (b::int))"
  by (simp add: signed_divide_int_def sgn_if)

lemma smod_nonpos: "a \<le> 0 \<Longrightarrow> 0 < b \<Longrightarrow> a smod b = - ((- a) mod (b::int))"
  by (simp add: signed_modulo_int_def sgn_if)

lemma decomposition_nonneg:
  "(k div 400) * 400 + ((k mod 400) div 100) * 100 + ((k mod 100) div 10) * 10
     + k mod 10 = (k::int)"
proof -
  have c: "(k mod 400) mod 100 = k mod 100" by (simp add: mod_mod_cancel)
  have e: "(k mod 100) mod 10 = k mod 10" by (simp add: mod_mod_cancel)
  have 1: "k mod 100 div 10 * 10 + k mod 10 = k mod 100"
    using div_mult_mod_eq [of "k mod 100" 10] by (simp only: e)
  have 2: "k mod 400 div 100 * 100 + k mod 100 = k mod 400"
    using div_mult_mod_eq [of "k mod 400" 100] by (simp only: c)
  have 3: "k div 400 * 400 + k mod 400 = k" by (rule div_mult_mod_eq)
  show ?thesis by (simp only: add.assoc 1 2 3)
qed

lemma trunc_decomposition:
  "(a sdiv 400) * 400 + ((a smod 400) sdiv 100) * 100 + ((a smod 100) sdiv 10) * 10
     + a smod 10 = (a::int)"
proof (cases "0 \<le> a")
  case True
  have "0 \<le> a mod 400" "0 \<le> a mod 100" by simp_all
  with True show ?thesis
    using decomposition_nonneg [of a] by (simp add: sdiv_nonneg smod_nonneg)
next
  case False
  then have a: "a \<le> 0" by simp
  have "- ((- a) mod 400) \<le> 0" "- ((- a) mod 100) \<le> 0" by simp_all
  with a show ?thesis
    using decomposition_nonneg [of "- a"]
    by (simp add: sdiv_nonpos smod_nonpos sdiv_nonneg smod_nonneg)
qed

lemma building_int_nth_nat: "\<forall>n<14. building_int (all_building_types ! n) = int n"
  by (simp add: all_building_types_def eval_nat_numeral All_less_Suc)

lemma building_int_nth:
  "0 \<le> i \<Longrightarrow> i < 14 \<Longrightarrow> building_int (all_building_types ! nat i) = i"
  using building_int_nth_nat by (simp add: nat_less_iff)

lemma rotation_int_nth_nat: "\<forall>n<4. rotation_int (all_rotations ! n) = int n"
  by (simp add: all_rotations_def eval_nat_numeral All_less_Suc)

lemma rotation_int_nth:
  "0 \<le> i \<Longrightarrow> i < 4 \<Longrightarrow> rotation_int (all_rotations ! nat i) = i"
  using rotation_int_nth_nat by (simp add: nat_less_iff)

lemma building_of_int_building_int: "building_of_int (building_int t) = Some t"
  by (cases t) (simp_all add: building_of_int_def all_building_types_def)

lemma rotation_of_int_rotation_int: "rotation_of_int (rotation_int r) = Some r"
  by (cases r) (simp_all add: rotation_of_int_def all_rotations_def)

lemma building_int_range: "0 \<le> building_int t \<and> building_int t < 14"
  by (cases t) simp_all

lemma rotation_int_range: "0 \<le> rotation_int r \<and> rotation_int r < 4"
  by (cases r) simp_all

lemma Move_ctor_Inr:
  "Move_ctor p t r = Inr m \<Longrightarrow>
   m = Move_make p t r \<and> rotation_int r \<le> turnable_int (turnable (get_instance t))"
  by (auto simp: Move_ctor_def Move_make_def Let_def split: if_splits)

lemma Move_ctor_legal:
  "rotation_int r \<le> turnable_int (turnable (get_instance t)) \<Longrightarrow>
   Move_ctor p t r = Inr (Move_make p t r)"
  by (simp add: Move_ctor_def Move_make_def Let_def)

lemma encode_Move_make:
  "encode (Move_make (Square x y) t r) =
     building_int t * 400 + rotation_int r * 100 + y * 10 + x"
  by (simp add: encode_def Move_make_def board_size_def board_width_def board_height_def
      max_rotations_def)

lemma decode_move_Inr:
  assumes "decode_move a = Inr m"
  shows "encode m = a"
proof -
  let ?b = "a sdiv 400" and ?r = "(a smod 400) sdiv 100"
  let ?y = "(a smod 100) sdiv 10" and ?x = "a smod 10"
  from assms obtain t r where t: "building_of_int ?b = Some t"
    and r: "rotation_of_int ?r = Some r"
    and m: "Move_ctor (Square ?x ?y) t r = Inr m"
    by (auto simp: decode_move_def Let_def board_size_def board_width_def
        board_height_def max_rotations_def split: option.splits)
  from t have bt: "building_int t = ?b"
    by (auto simp: building_of_int_def building_int_nth split: if_splits)
  from r have rt: "rotation_int r = ?r"
    by (auto simp: rotation_of_int_def rotation_int_nth split: if_splits)
  from Move_ctor_Inr [OF m] have "m = Move_make (Square ?x ?y) t r" by simp
  then have "encode m = ?b * 400 + ?r * 100 + ?y * 10 + ?x"
    by (simp add: encode_Move_make bt rt)
  then show ?thesis using trunc_decomposition [of a] by simp
qed

lemma decode_parts:
  fixes b r y x :: int
  assumes "0 \<le> b" "0 \<le> r" "r < 4" "0 \<le> y" "y < 10" "0 \<le> x" "x < 10"
  shows "(b * 400 + r * 100 + y * 10 + x) sdiv 400 = b"
    and "((b * 400 + r * 100 + y * 10 + x) smod 400) sdiv 100 = r"
    and "((b * 400 + r * 100 + y * 10 + x) smod 100) sdiv 10 = y"
    and "(b * 400 + r * 100 + y * 10 + x) smod 10 = x"
    and "0 \<le> b * 400 + r * 100 + y * 10 + x"
proof -
  let ?a = "b * 400 + r * 100 + y * 10 + x"
  show a0: "0 \<le> ?a" using assms by simp
  have d1: "?a div 400 = b"
    using assms by (intro int_div_pos_eq [where r = "r * 100 + y * 10 + x"]) auto
  have m1: "?a mod 400 = r * 100 + y * 10 + x"
    using assms by (intro int_mod_pos_eq [where q = b]) auto
  have d2: "(r * 100 + y * 10 + x) div 100 = r"
    using assms by (intro int_div_pos_eq [where r = "y * 10 + x"]) auto
  have m2: "?a mod 100 = y * 10 + x"
    using assms by (intro int_mod_pos_eq [where q = "b * 4 + r"]) auto
  have d3: "(y * 10 + x) div 10 = y"
    using assms by (intro int_div_pos_eq [where r = x]) auto
  have m3: "?a mod 10 = x"
    using assms by (intro int_mod_pos_eq [where q = "b * 40 + r * 10 + y"]) auto
  have nn: "0 \<le> r * 100 + y * 10 + x" "0 \<le> y * 10 + x" using assms by simp_all
  show "?a sdiv 400 = b" using a0 d1 by (simp add: sdiv_nonneg)
  show "(?a smod 400) sdiv 100 = r" using a0 m1 d2 nn by (simp add: sdiv_nonneg smod_nonneg)
  show "(?a smod 100) sdiv 10 = y" using a0 m2 d3 nn by (simp add: sdiv_nonneg smod_nonneg)
  show "?a smod 10 = x" using a0 m3 by (simp add: smod_nonneg)
qed

lemma decode_encode:
  assumes "rotation_int r \<le> turnable_int (turnable (get_instance t))"
    and "is_on_board p"
  shows "decode_move (encode (Move_make p t r)) = Inr (Move_make p t r)"
    and "0 \<le> encode (Move_make p t r)" and "encode (Move_make p t r) < 5600"
proof -
  obtain x y where p: "p = Square x y" by (cases p)
  from assms(2) p have xy: "0 \<le> x" "x < 10" "0 \<le> y" "y < 10"
    by (simp_all add: is_on_board_def)
  have br: "0 \<le> building_int t" "building_int t < 14" "0 \<le> rotation_int r"
    "rotation_int r < 4"
    using building_int_range [of t] rotation_int_range [of r] by simp_all
  note parts = decode_parts [OF br(1) br(3) br(4) xy(3) xy(4) xy(1) xy(2)]
  have e: "encode (Move_make p t r) =
      building_int t * 400 + rotation_int r * 100 + y * 10 + x"
    by (simp add: p encode_Move_make)
  have "decode_move (building_int t * 400 + rotation_int r * 100 + y * 10 + x) =
      Move_ctor (Square x y) t r"
    by (simp add: decode_move_def Let_def board_size_def board_width_def
        board_height_def max_rotations_def parts building_of_int_building_int
        rotation_of_int_rotation_int)
  then show "decode_move (encode (Move_make p t r)) = Inr (Move_make p t r)"
    using Move_ctor_legal [OF assms(1), of p] by (simp only: e) (simp add: p)
  show "0 \<le> encode (Move_make p t r)" using parts(5) by (simp add: e)
  show "encode (Move_make p t r) < 5600" using br xy by (simp add: e)
qed

lemma decode_move_in_range:
  assumes "0 \<le> a" "a < 5600"
  shows "decode_move a =
           Move_ctor (action_anchor a) (action_building a) (action_rotation a)"
proof -
  have "0 \<le> a mod 400" "0 \<le> a mod 100" by simp_all
  then have s: "a sdiv 400 = a div 400" "(a smod 400) sdiv 100 = (a mod 400) div 100"
    "(a smod 100) sdiv 10 = (a mod 100) div 10" "a smod 10 = a mod 10"
    using assms(1) by (simp_all add: sdiv_nonneg smod_nonneg)
  have "a div 400 \<le> 5599 div 400" using assms by (intro zdiv_mono1) auto
  then have b: "0 \<le> a div 400" "a div 400 < 14"
    using assms by (simp_all add: pos_imp_zdiv_nonneg_iff)
  have "a mod 400 \<le> 399" using pos_mod_bound [of 400 a] by simp
  then have "(a mod 400) div 100 \<le> 399 div 100" by (intro zdiv_mono1) auto
  then have r: "0 \<le> (a mod 400) div 100" "(a mod 400) div 100 < 4"
    by (simp_all add: pos_imp_zdiv_nonneg_iff)
  show ?thesis
    using b r
    by (simp add: decode_move_def Let_def board_size_def board_width_def
        board_height_def max_rotations_def s building_of_int_def rotation_of_int_def
        action_anchor_def action_building_def action_rotation_def)
qed

lemma action_anchor_on_board: "is_on_board (action_anchor a)"
proof -
  have "a mod 100 \<le> 99" using pos_mod_bound [of 100 a] by simp
  then have "(a mod 100) div 10 \<le> 99 div 10" by (intro zdiv_mono1) auto
  then have "0 \<le> (a mod 100) div 10" "(a mod 100) div 10 < 10"
    by (simp_all add: pos_imp_zdiv_nonneg_iff)
  then show ?thesis
    by (simp add: is_on_board_def action_anchor_def board_width_def board_height_def)
qed

lemma decode_move_in_range_Inr:
  assumes "0 \<le> a" "a < 5600" "decode_move a = Inr m"
  shows "m = Move_make (pos m) (building_type m) (rotation m)"
    and "rotation_int (rotation m) \<le> turnable_int (turnable (get_instance (building_type m)))"
    and "is_on_board (pos m)"
proof -
  from decode_move_in_range [OF assms(1,2)] assms(3)
  have c: "Move_ctor (action_anchor a) (action_building a) (action_rotation a) = Inr m"
    by simp
  from Move_ctor_Inr [OF c]
  have m: "m = Move_make (action_anchor a) (action_building a) (action_rotation a)"
    and l: "rotation_int (action_rotation a)
              \<le> turnable_int (turnable (get_instance (action_building a)))"
    by simp_all
  have p: "pos m = action_anchor a" "building_type m = action_building a"
    "rotation m = action_rotation a"
    by (simp_all add: m Move_make_def)
  show "m = Move_make (pos m) (building_type m) (rotation m)" unfolding p by (rule m)
  show "rotation_int (rotation m) \<le> turnable_int (turnable (get_instance (building_type m)))"
    using l by (simp add: p)
  show "is_on_board (pos m)" by (simp add: p action_anchor_on_board)
qed

lemma encode_inj:
  assumes l: "rotation_int r \<le> turnable_int (turnable (get_instance t))"
    and o: "is_on_board p"
    and l': "rotation_int r' \<le> turnable_int (turnable (get_instance t'))"
    and o': "is_on_board p'"
    and e: "encode (Move_make p t r) = encode (Move_make p' t' r')"
  shows "t = t' \<and> r = r' \<and> p = p'"
proof -
  have "decode_move (encode (Move_make p t r)) = decode_move (encode (Move_make p' t' r'))"
    by (simp only: e)
  then have "Move_make p t r = Move_make p' t' r'"
    by (simp only: decode_encode(1) [OF l o] decode_encode(1) [OF l' o'] sum.inject)
  then show ?thesis by (simp add: Move_make_def)
qed

lemma encode_bij:
  "bij_betw (\<lambda>(t, r, p). encode (Move_make p t r))
     {(t, r, p). rotation_int r \<le> turnable_int (turnable (get_instance t)) \<and> is_on_board p}
     {a. 0 \<le> a \<and> a < 5600 \<and> (\<exists>m. decode_move a = Inr m)}"
  unfolding bij_betw_def
proof
  show "inj_on (\<lambda>(t, r, p). encode (Move_make p t r))
     {(t, r, p). rotation_int r \<le> turnable_int (turnable (get_instance t)) \<and> is_on_board p}"
    by (auto simp: inj_on_def dest: encode_inj)
  show "(\<lambda>(t, r, p). encode (Move_make p t r)) `
     {(t, r, p). rotation_int r \<le> turnable_int (turnable (get_instance t)) \<and> is_on_board p}
     = {a. 0 \<le> a \<and> a < 5600 \<and> (\<exists>m. decode_move a = Inr m)}"
  proof (intro set_eqI iffI)
    fix a
    assume "a \<in> (\<lambda>(t, r, p). encode (Move_make p t r)) `
     {(t, r, p). rotation_int r \<le> turnable_int (turnable (get_instance t)) \<and> is_on_board p}"
    then obtain t r p where a: "a = encode (Move_make p t r)"
      and l: "rotation_int r \<le> turnable_int (turnable (get_instance t))"
      and o: "is_on_board p" by auto
    from decode_encode [OF l o] show "a \<in> {a. 0 \<le> a \<and> a < 5600 \<and> (\<exists>m. decode_move a = Inr m)}"
      by (auto simp: a)
  next
    fix a
    assume "a \<in> {a. 0 \<le> a \<and> a < 5600 \<and> (\<exists>m. decode_move a = Inr m)}"
    then obtain m where r: "0 \<le> a" "a < 5600" and d: "decode_move a = Inr m" by auto
    note f = decode_move_in_range_Inr [OF r d]
    have "encode (Move_make (pos m) (building_type m) (rotation m)) = a"
      using decode_move_Inr [OF d] f(1) by simp
    then have "a = (\<lambda>(t, r, p). encode (Move_make p t r)) (building_type m, rotation m, pos m)"
      by simp
    moreover have "(building_type m, rotation m, pos m) \<in>
      {(t, r, p). rotation_int r \<le> turnable_int (turnable (get_instance t)) \<and> is_on_board p}"
      using f(2,3) by simp
    ultimately show "a \<in> (\<lambda>(t, r, p). encode (Move_make p t r)) `
     {(t, r, p). rotation_int r \<le> turnable_int (turnable (get_instance t)) \<and> is_on_board p}"
      by (rule image_eqI)
  qed
qed

text \<open>
  Claim C4. A triple is a building type, a rotation allowed for the building and an
  anchor, a square of the 10 x 10 board; an action id is an integer of the action range
  [0, 5600). The encoding \<open>buildingType * boardCells * maxRotations + rotation * boardCells
  + y * boardWidth + x\<close> is a bijection between the triples and the action ids that
  decode. The constructor of \<open>Move\<close> succeeds exactly for an allowed rotation. For a move
  built from a triple the id is given by the formula, lies in the action range, and
  decodes to a move that is equal to it for \<open>Move::operator==\<close>, and in its form and
  corners as well. Every integer that decodes, inside the action range or not, encodes
  back to itself, so that \<open>decode (encode (decode a)) = decode a\<close>; and an id of the
  action range that decodes gives a move of a triple: its anchor is on the board and
  its rotation is allowed.
\<close>

theorem encode_decode_round_trip:
  "bij_betw (\<lambda>(t, r, p). encode (Move_make p t r))
     {(t, r, p). rotation_int r \<le> turnable_int (turnable (get_instance t)) \<and> is_on_board p}
     {a. 0 \<le> a \<and> a < 5600 \<and> (\<exists>m. decode_move a = Inr m)}
   \<and> (rotation_int r \<le> turnable_int (turnable (get_instance t))
        \<longleftrightarrow> Move_ctor p t r = Inr (Move_make p t r))
   \<and> (Move_ctor p t r = Inr m \<and> is_on_board p \<longrightarrow>
        encode m = building_int t * board_size * max_rotations
                     + rotation_int r * board_size + sq_y p * board_width + sq_x p
        \<and> 0 \<le> encode m \<and> encode m < 5600
        \<and> (\<exists>m2. decode_move (encode m) = Inr m2 \<and> move_eq m2 m \<and> m2 = m))
   \<and> (decode_move a = Inr m' \<longrightarrow>
        encode m' = a \<and> decode_move (encode m') = decode_move a)
   \<and> (0 \<le> a \<and> a < 5600 \<and> decode_move a = Inr m' \<longrightarrow>
        is_on_board (pos m')
        \<and> Move_ctor (pos m') (building_type m') (rotation m') = Inr m')"
proof (intro conjI impI)
  show "bij_betw (\<lambda>(t, r, p). encode (Move_make p t r))
     {(t, r, p). rotation_int r \<le> turnable_int (turnable (get_instance t)) \<and> is_on_board p}
     {a. 0 \<le> a \<and> a < 5600 \<and> (\<exists>m. decode_move a = Inr m)}"
    by (rule encode_bij)
next
  show "rotation_int r \<le> turnable_int (turnable (get_instance t))
        \<longleftrightarrow> Move_ctor p t r = Inr (Move_make p t r)"
    using Move_ctor_Inr [of p t r] Move_ctor_legal [of r t p] by blast
next
  assume h: "Move_ctor p t r = Inr m \<and> is_on_board p"
  then have m: "m = Move_make p t r"
    and leg: "rotation_int r \<le> turnable_int (turnable (get_instance t))"
    using Move_ctor_Inr by blast+
  from h have on: "is_on_board p" by simp
  show "encode m = building_int t * board_size * max_rotations
                   + rotation_int r * board_size + sq_y p * board_width + sq_x p"
    by (simp add: m encode_def Move_make_def)
  show "0 \<le> encode m" "encode m < 5600"
    using decode_encode [OF leg on] by (simp_all add: m)
  show "\<exists>m2. decode_move (encode m) = Inr m2 \<and> move_eq m2 m \<and> m2 = m"
    using decode_encode(1) [OF leg on] by (simp add: m move_eq_def)
next
  assume d: "decode_move a = Inr m'"
  then show "encode m' = a" by (rule decode_move_Inr)
  with d show "decode_move (encode m') = decode_move a" by simp
next
  assume h: "0 \<le> a \<and> a < 5600 \<and> decode_move a = Inr m'"
  then have r: "0 \<le> a" "a < 5600" and d: "decode_move a = Inr m'" by simp_all
  note f = decode_move_in_range_Inr [OF r d]
  show "is_on_board (pos m')" by (rule f(3))
  show "Move_ctor (pos m') (building_type m') (rotation m') = Inr m'"
    using Move_ctor_legal [OF f(2), of "pos m'"] f(1) by simp
qed

text \<open>
  The Inn rotated by 90 degrees and anchored at (1, 0) has the id 901. The integer -1,
  which is not an action id, decodes to a Tavern anchored at (-1, 0), off the board, and
  encodes back to -1.
\<close>

theorem encode_decode_round_trip_witness:
  "Move_ctor (Square 1 0) Inn ROTATE_90 = Inr (Move_make (Square 1 0) Inn ROTATE_90)
   \<and> is_on_board (Square 1 0)
   \<and> encode (Move_make (Square 1 0) Inn ROTATE_90) = 901
   \<and> (0::int) \<le> 901 \<and> (901::int) < 5600
   \<and> decode_move 901 = Inr (Move_make (Square 1 0) Inn ROTATE_90)
   \<and> move_eq (Move_make (Square 1 0) Inn ROTATE_90) (Move_make (Square 1 0) Inn ROTATE_90)
   \<and> decode_move (encode (Move_make (Square 1 0) Inn ROTATE_90)) = decode_move 901
   \<and> is_on_board (pos (Move_make (Square 1 0) Inn ROTATE_90))
   \<and> decode_move (- 1) = Inr (Move_make (Square (- 1) 0) Tavern ROTATE_0)
   \<and> encode (Move_make (Square (- 1) 0) Tavern ROTATE_0) = - 1"
proof -
  let ?m = "Move_make (Square 1 0) Inn ROTATE_90"
  let ?n = "Move_make (Square (- 1) 0) Tavern ROTATE_0"
  have c: "Move_ctor (Square 1 0) Inn ROTATE_90 = Inr ?m" by code_simp
  have b: "is_on_board (Square 1 0)" by code_simp
  have d: "decode_move 901 = Inr ?m" by code_simp
  have n: "decode_move (- 1) = Inr ?n" by code_simp
  note t = encode_decode_round_trip
    [where p = "Square 1 0" and t = Inn and r = ROTATE_90 and m = ?m and a = 901 and m' = ?m]
  note u = encode_decode_round_trip
    [where p = "Square 1 0" and t = Inn and r = ROTATE_90 and m = ?m and a = "- 1" and m' = ?n]
  from t c b have e: "encode ?m = 901 \<and> move_eq ?m ?m"
    by (simp add: board_size_def max_rotations_def board_width_def board_height_def)
  from t d have r: "decode_move (encode ?m) = decode_move 901" by blast
  from t d have o: "is_on_board (pos ?m)" by simp
  from u n have f: "encode ?n = - 1" by blast
  from c b d e r o n f show ?thesis by simp
qed

text \<open>
  Outside the triples: the constructor of \<open>Move\<close> takes any square, and a Tavern anchored
  at (10, 0), next to the board, would share the id 10 with the Tavern at (0, 1). The
  generator of moves and \<open>decode_move\<close> on the action range build anchors on the board
  only.
\<close>

lemma anchor_next_to_the_board:
  "Move_ctor (Square 10 0) Tavern ROTATE_0 = Inr (Move_make (Square 10 0) Tavern ROTATE_0)
   \<and> encode (Move_make (Square 10 0) Tavern ROTATE_0) = 10
   \<and> decode_move 10 = Inr (Move_make (Square 0 1) Tavern ROTATE_0)"
  by code_simp

section \<open>Legality on the board (claims C7, C9, C10)\<close>

lemma form_fits_iff:
  "form_fits b c sqs \<longleftrightarrow>
     (\<forall>sq\<in>set sqs. is_on_board sq \<and> color_is_compatible (cell_at b sq) c)"
  by (induction sqs) auto

text \<open>
  Claim C7. \<open>is_move_valid\<close> holds exactly when every square of the form of the move is
  on the 10 x 10 grid and its cell is empty, or is black territory under a black move,
  or is white territory under a white move. A Cathedral is placed in the neutral colour,
  which fits empty cells only.
\<close>

theorem is_move_valid_iff:
  "(is_move_valid b m p \<longleftrightarrow>
      (\<forall>sq\<in>set (form m).
         (0 \<le> sq_x sq \<and> sq_x sq < 10 \<and> 0 \<le> sq_y sq \<and> sq_y sq < 10) \<and>
         (cell_at b sq = EMPTY
          \<or> (cell_at b sq = BLACK_REGION \<and> get_square_color m p = BLACK)
          \<or> (cell_at b sq = WHITE_REGION \<and> get_square_color m p = WHITE))))
   \<and> (building_type m = Cathedral \<longrightarrow>
        get_square_color m p = BLUE \<and>
        (is_move_valid b m p \<longleftrightarrow>
           (\<forall>sq\<in>set (form m).
              (0 \<le> sq_x sq \<and> sq_x sq < 10 \<and> 0 \<le> sq_y sq \<and> sq_y sq < 10) \<and>
              cell_at b sq = EMPTY)))"
  by (auto simp: is_move_valid_def form_fits_iff is_on_board_def color_is_compatible_def
      get_square_color_def)

theorem is_move_valid_iff_witness:
  "building_type (Move_make (Square 5 5) Cathedral ROTATE_0) = Cathedral
   \<and> get_square_color (Move_make (Square 5 5) Cathedral ROTATE_0) 0 = BLUE
   \<and> is_move_valid Board_ctor (Move_make (Square 5 5) Cathedral ROTATE_0) 0
   \<and> \<not> is_move_valid Board_ctor (Move_make (Square 0 5) Cathedral ROTATE_0) 0"
proof -
  let ?m = "Move_make (Square 5 5) Cathedral ROTATE_0"
  let ?n = "Move_make (Square 0 5) Cathedral ROTATE_0"
  have b: "building_type ?m = Cathedral" by (simp add: Move_make_def)
  have fits: "\<forall>sq\<in>set (form ?m).
      (0 \<le> sq_x sq \<and> sq_x sq < 10 \<and> 0 \<le> sq_y sq \<and> sq_y sq < 10) \<and>
      (cell_at Board_ctor sq = EMPTY
       \<or> (cell_at Board_ctor sq = BLACK_REGION \<and> get_square_color ?m 0 = BLACK)
       \<or> (cell_at Board_ctor sq = WHITE_REGION \<and> get_square_color ?m 0 = WHITE))"
    by code_simp
  have off: "Square (- 1) 5 \<in> set (form ?n)" by code_simp
  have v: "is_move_valid Board_ctor ?m 0"
    using is_move_valid_iff [of Board_ctor ?m 0] fits by blast
  have c: "get_square_color ?m 0 = BLUE"
    using is_move_valid_iff [of Board_ctor ?m 0] b by blast
  have "\<not> is_move_valid Board_ctor ?n 0"
  proof
    assume "is_move_valid Board_ctor ?n 0"
    with is_move_valid_iff [of Board_ctor ?n 0] off
    have "0 \<le> sq_x (Square (- 1) 5)" by blast
    then show False by simp
  qed
  with b c v show ?thesis by blast
qed

text \<open>
  Claim C9. A move that fails the legality check of the board makes \<open>make_move\<close> return
  false and leave the whole state (board, inventories, removed moves, current player)
  as it was.
\<close>

theorem make_move_illegal_no_change:
  "\<not> is_move_valid (board s) m (current_player s) \<Longrightarrow> make_move s m = Inr (False, s)"
  by (simp add: make_move_def)

theorem make_move_illegal_no_change_witness:
  "\<not> is_move_valid (board CathedralState_ctor) (Move_make (Square 0 5) Cathedral ROTATE_0)
        (current_player CathedralState_ctor)
   \<and> make_move CathedralState_ctor (Move_make (Square 0 5) Cathedral ROTATE_0) =
       Inr (False, CathedralState_ctor)"
proof -
  have h: "\<not> is_move_valid (board CathedralState_ctor)
      (Move_make (Square 0 5) Cathedral ROTATE_0) (current_player CathedralState_ctor)"
    by code_simp
  from h make_move_illegal_no_change [OF h] show ?thesis by blast
qed

text \<open>
  Claim C10. For a player who is not the current player the query for possible moves
  returns the empty list, whatever the inventories and the board are.
\<close>

theorem get_possible_moves_other_player:
  "p \<noteq> current_player s \<Longrightarrow> get_possible_moves s p = []"
  by (simp add: get_possible_moves_def)

theorem get_possible_moves_other_player_witness:
  "(1::int) \<noteq> current_player CathedralState_ctor
   \<and> get_possible_moves CathedralState_ctor 1 = []"
proof -
  have h: "(1::int) \<noteq> current_player CathedralState_ctor"
    by (simp add: CathedralState_ctor_def)
  from h get_possible_moves_other_player [OF h] show ?thesis by blast
qed

section \<open>The turn (claim C8)\<close>

subsection \<open>What a region sweep leaves alone\<close>

lemma remove_move_keeps:
  "remove_move s pm = Inr s' \<Longrightarrow>
   current_player s' = current_player s \<and> history s' = history s"
  by (auto simp: remove_move_def split: if_splits)

lemma remove_moves_keeps:
  "remove_moves s pms = Inr s' \<Longrightarrow>
   current_player s' = current_player s \<and> history s' = history s"
proof (induction pms arbitrary: s)
  case Nil
  then show ?case by simp
next
  case (Cons pm pms)
  then show ?case
    by (auto split: sum.splits dest!: remove_move_keeps)
qed

lemma process_region_keeps:
  "process_region s region c = Inr s' \<Longrightarrow>
   current_player s' = current_player s \<and> history s' = history s"
  by (auto simp: process_region_def split: sum.splits if_splits dest!: remove_moves_keeps)

lemma sweep_keeps:
  "sweep c runner m s = Inr s' \<Longrightarrow>
   current_player s' = current_player s \<and> history s' = history s"
proof (induction c runner m s rule: sweep.induct)
  case (1 color runner m s)
  show ?case
  proof (cases "runner < 100")
    case False
    with "1.prems" show ?thesis by (simp add: sweep.simps)
  next
    case True
    let ?sq = "Square (runner smod 10) (runner sdiv 10)"
    show ?thesis
    proof (cases "mask_at m ?sq = 1")
      case False
      with True "1.prems" have "sweep color (runner + 1) m s = Inr s'"
        by (subst (asm) sweep.simps) (simp add: Let_def)
      from "1.IH"(2) [OF True refl refl False this] show ?thesis .
    next
      case m1: True
      obtain m' region where f: "flood (mask_clear m ?sq) [?sq] [] = (m', region)"
        by (cases "flood (mask_clear m ?sq) [?sq] []")
      from True m1 f "1.prems" obtain s1 where p: "process_region s region color = Inr s1"
        and sw: "sweep color (runner + 1) m' s1 = Inr s'"
        by (subst (asm) sweep.simps) (auto simp: Let_def split: sum.splits)
      from "1.IH"(1) [OF True refl refl m1 f [symmetric] p sw]
        process_region_keeps [OF p]
      show ?thesis by simp
    qed
  qed
qed

lemma build_regions_keeps:
  "build_regions s = Inr s' \<Longrightarrow>
   current_player s' = current_player s \<and> history s' = history s"
  by (auto simp: build_regions_def split: sum.splits dest!: sweep_keeps)

lemma connections_loop_keeps:
  "connections_loop s m n sqs = Inr s' \<Longrightarrow>
   current_player s' = current_player s \<and> history s' = history s"
proof (induction sqs arbitrary: n)
  case Nil
  then show ?case by simp
next
  case (Cons sq sqs)
  then show ?case
    by (auto split: if_splits dest!: build_regions_keeps)
qed

lemma place_building_keeps:
  "place_building s m = Inr s' \<Longrightarrow>
   current_player s' = current_player s \<and> history s' = history s"
  by (auto simp: place_building_def Let_def split: sum.splits if_splits
      dest!: connections_loop_keeps)

subsection \<open>The turn\<close>

lemma candidate_rotations_set:
  "set (candidate_rotations t) =
     {r \<in> set all_rotations. rotation_int r \<le> turnable_int (turnable (get_instance t))}"
proof -
  have "set (take (nat (turnable_int tb + 1)) all_rotations) =
      {r \<in> set all_rotations. rotation_int r \<le> turnable_int tb}" for tb
    by (cases tb) (auto simp: all_rotations_def)
  then show ?thesis by (simp add: candidate_rotations_def)
qed

lemma get_possible_moves_type_nonempty:
  "get_possible_moves_type s t p \<noteq> [] \<longleftrightarrow>
     available_buildings (players s ! nat p) ! nat (building_int t) > 0 \<and>
     (\<exists>y\<in>{0..9}. \<exists>x\<in>{0..9}. \<exists>r\<in>set all_rotations.
        rotation_int r \<le> turnable_int (turnable (get_instance t)) \<and>
        is_move_valid (board s) (Move_make (Square x y) t r) p)"
  unfolding get_possible_moves_type_def is_building_available_def
  by (simp add: filter_empty_conv candidate_rotations_set) blast

lemma has_moves_loop_iff:
  "has_moves_loop s p ts \<longleftrightarrow> (\<exists>t\<in>set ts. get_possible_moves_type s t p \<noteq> [])"
  by (induction ts) auto

lemma has_moves_loop_available:
  "has_moves_loop s p (get_available_building_types (players s ! nat p))
     \<longleftrightarrow> has_legal_placement s p"
  by (auto simp: has_moves_loop_iff get_possible_moves_type_nonempty
      get_available_building_types_def has_legal_placement_def)

lemma update_current_player_result:
  "update_current_player s =
     (if has_legal_placement s ((current_player s + 1) smod 2)
      then s\<lparr> current_player := (current_player s + 1) smod 2 \<rparr> else s)"
  by (simp add: update_current_player_def Let_def has_moves_loop_available)

lemma has_legal_placement_cong:
  "board s' = board s \<Longrightarrow> players s' = players s \<Longrightarrow>
   has_legal_placement s' p = has_legal_placement s p"
  by (simp add: has_legal_placement_def)

text \<open>
  Claim C8. After a move has been applied the turn is the other player's exactly when
  the other player has a legal placement, with some building type left in the inventory,
  on the board as the move leaves it; otherwise the player who moved moves again.
\<close>

theorem turn_passes_iff_other_can_move:
  assumes "make_unvalidated_move s m = Inr s'"
    and "current_player s = 0 \<or> current_player s = 1"
  shows "current_player s' =
           (if has_legal_placement s' (1 - current_player s)
            then 1 - current_player s else current_player s)"
proof -
  from assms(1) obtain s1 pp where pb: "place_building s m = Inr s1"
    and s': "s' = update_current_player
                    (s1\<lparr> players := (players s1)[nat (current_player s1) := pp] \<rparr>)"
    by (auto simp: make_unvalidated_move_def split: sum.splits)
  let ?s2 = "s1\<lparr> players := (players s1)[nat (current_player s1) := pp] \<rparr>"
  have cp: "current_player ?s2 = current_player s"
    using place_building_keeps [OF pb] by simp
  have nxt: "(current_player s + 1) smod 2 = 1 - current_player s"
    using assms(2) by (auto simp: signed_modulo_int_def)
  have same: "has_legal_placement s' p = has_legal_placement ?s2 p" for p
    by (rule has_legal_placement_cong)
      (simp_all add: s' update_current_player_result)
  show ?thesis
    unfolding same
    by (simp add: s' update_current_player_result [of ?s2] cp nxt del: CathedralState.simps)
qed

theorem turn_passes_iff_other_can_move_witness:
  "make_unvalidated_move CathedralState_ctor (Move_make (Square 5 5) Cathedral ROTATE_0) =
     Inr (projr (make_unvalidated_move CathedralState_ctor
                  (Move_make (Square 5 5) Cathedral ROTATE_0)))
   \<and> current_player CathedralState_ctor = 0
   \<and> current_player (projr (make_unvalidated_move CathedralState_ctor
                              (Move_make (Square 5 5) Cathedral ROTATE_0))) = 1
   \<and> has_legal_placement (projr (make_unvalidated_move CathedralState_ctor
                                  (Move_make (Square 5 5) Cathedral ROTATE_0))) 1
   \<and> make_unvalidated_move captured_position (Move_make (Square 2 1) Tower ROTATE_90) =
       Inr (projr (make_unvalidated_move captured_position
                    (Move_make (Square 2 1) Tower ROTATE_90)))
   \<and> current_player captured_position = 0
   \<and> current_player (projr (make_unvalidated_move captured_position
                              (Move_make (Square 2 1) Tower ROTATE_90))) = 0
   \<and> \<not> has_legal_placement (projr (make_unvalidated_move captured_position
                                    (Move_make (Square 2 1) Tower ROTATE_90))) 1"
proof -
  let ?a = "make_unvalidated_move CathedralState_ctor (Move_make (Square 5 5) Cathedral ROTATE_0)"
  let ?b = "make_unvalidated_move captured_position (Move_make (Square 2 1) Tower ROTATE_90)"
  have a: "?a = Inr (projr ?a)" by code_simp
  have b: "?b = Inr (projr ?b)" by code_simp
  have a0: "current_player CathedralState_ctor = 0" by (simp add: CathedralState_ctor_def)
  have b0: "current_player captured_position = 0" by (simp add: captured_position_def)
  have a1: "current_player (projr ?a) = 1" by code_simp
  have b1: "current_player (projr ?b) = 0" by code_simp
  from turn_passes_iff_other_can_move [OF a] a0 a1
  have ha: "has_legal_placement (projr ?a) 1"
    by (simp split: if_splits)
  from turn_passes_iff_other_can_move [OF b] b0 b1
  have hb: "\<not> has_legal_placement (projr ?b) 1"
    by (simp split: if_splits)
  from a a0 a1 ha b b0 b1 hb show ?thesis by blast
qed

section \<open>The capture of a region (claim C2)\<close>

lemma is_piece_removed_marked:
  "Move_of_action (snd pa) = Inr m \<Longrightarrow>
   is_piece_removed s pa = Inr (marked_removed s (fst pa) m)"
  by (auto simp: is_piece_removed_def marked_removed_def list_ex_iff player_move_eq_def
      move_eq_def)

lemma is_piece_removed_Inr:
  "is_piece_removed s pa = Inr b \<Longrightarrow> \<exists>m. Move_of_action (snd pa) = Inr m"
  by (auto simp: is_piece_removed_def split: sum.splits)

subsection \<open>Cells of a well-formed board\<close>

lemma square_eq_iff: "a = b \<longleftrightarrow> sq_x a = sq_x b \<and> sq_y a = sq_y b"
  by (cases a; cases b) simp

lemma board_wf_row:
  "board_wf b \<Longrightarrow> is_on_board sq \<Longrightarrow>
   nat (sq_y sq) < length (field b) \<and> nat (sq_x sq) < length (field b ! nat (sq_y sq))"
  by (auto simp: board_wf_def is_on_board_def)

lemma board_wf_set_cell:
  assumes "board_wf b" "is_on_board sq"
  shows "board_wf (set_cell b sq c)"
proof -
  from board_wf_row [OF assms] have y: "nat (sq_y sq) < length (field b)" by simp
  then have "length (field b ! nat (sq_y sq)) = 10"
    using assms(1) by (simp add: board_wf_def)
  moreover have "row \<in> insert ((field b ! nat (sq_y sq))[nat (sq_x sq) := c]) (set (field b))"
    if "row \<in> set ((field b)[nat (sq_y sq) := (field b ! nat (sq_y sq))[nat (sq_x sq) := c]])"
    for row
    using that set_update_subset_insert by fastforce
  ultimately show ?thesis
    using assms(1) by (fastforce simp: board_wf_def set_cell_def)
qed

lemma cell_at_set_cell:
  assumes "board_wf b" "is_on_board sq" "is_on_board sq'"
  shows "cell_at (set_cell b sq c) sq' = (if sq' = sq then c else cell_at b sq')"
proof -
  from board_wf_row [OF assms(1,2)] have y: "nat (sq_y sq) < length (field b)"
    and x: "nat (sq_x sq) < length (field b ! nat (sq_y sq))" by simp_all
  have eq: "sq' = sq \<longleftrightarrow> nat (sq_x sq') = nat (sq_x sq) \<and> nat (sq_y sq') = nat (sq_y sq)"
    using assms(2,3) by (auto simp: square_eq_iff is_on_board_def)
  show ?thesis
    using x y by (auto simp: cell_at_def set_cell_def eq nth_list_update)
qed

lemma clear_form_cells:
  "board_wf b \<Longrightarrow>
   board_wf (clear_form b frm) \<and>
   (\<forall>sq. is_on_board sq \<longrightarrow>
      cell_at (clear_form b frm) sq = (if sq \<in> set frm then EMPTY else cell_at b sq))"
proof (induction frm arbitrary: b)
  case Nil
  then show ?case by simp
next
  case (Cons a frm)
  show ?case
  proof (cases "is_on_board a")
    case True
    from Cons.IH [OF board_wf_set_cell [OF Cons.prems True, of EMPTY]]
    show ?thesis
      using True by (auto simp: cell_at_set_cell [OF Cons.prems True])
  next
    case False
    from Cons.IH [OF Cons.prems] False show ?thesis by auto
  qed
qed

lemma place_color_cells:
  "board_wf b \<Longrightarrow> \<forall>sq\<in>set frm. is_on_board sq \<Longrightarrow>
   \<exists>b'. place_color b frm c = Inr b' \<and> board_wf b' \<and>
     (\<forall>sq. is_on_board sq \<longrightarrow>
        cell_at b' sq = (if sq \<in> set frm then c else cell_at b sq))"
proof (induction frm arbitrary: b)
  case Nil
  then show ?case by simp
next
  case (Cons a frm)
  then have a: "is_on_board a" and rest: "\<forall>sq\<in>set frm. is_on_board sq" by simp_all
  from Cons.IH [OF board_wf_set_cell [OF Cons.prems(1) a, of c] rest]
  obtain b' where b': "place_color (set_cell b a c) frm c = Inr b'" "board_wf b'"
    "\<forall>sq. is_on_board sq \<longrightarrow>
        cell_at b' sq = (if sq \<in> set frm then c else cell_at (set_cell b a c) sq)"
    by blast
  show ?case
    using a b' by (auto simp: cell_at_set_cell [OF Cons.prems(1) a])
qed

subsection \<open>The enemy buildings of a region\<close>

lemma enemy_buildings_loop_result:
  "enemy_buildings_loop s region c pas acc = Inr es \<Longrightarrow>
   es = acc @ enemy_moves s region c pas"
proof (induction pas arbitrary: acc)
  case Nil
  then show ?case by (simp add: enemy_moves_def)
next
  case (Cons pa pas)
  from Cons.prems obtain r where r: "is_piece_removed s pa = Inr r"
    by (auto split: sum.splits)
  then obtain m where m: "Move_of_action (snd pa) = Inr m"
    using is_piece_removed_Inr by blast
  with r have rm: "r = marked_removed s (fst pa) m"
    using is_piece_removed_marked [OF m, of s] by simp
  have em: "enemy_moves s region c (pa # pas) =
      (if \<not> marked_removed s (fst pa) m \<and> pos m \<in> set region
          \<and> get_square_color m (fst pa) \<noteq> c
       then [\<lparr> player = fst pa, move = m \<rparr>] else []) @ enemy_moves s region c pas"
    by (simp add: enemy_moves_def m)
  show ?case
  proof (cases "\<not> r \<and> pos m \<in> set region \<and> get_square_color m (fst pa) \<noteq> c")
    case True
    with Cons.prems r m
    have "enemy_buildings_loop s region c pas (acc @ [\<lparr> player = fst pa, move = m \<rparr>]) = Inr es"
      by (simp add: is_in_region_def)
    from Cons.IH [OF this] True rm show ?thesis by (simp add: em)
  next
    case False
    with Cons.prems r m have "enemy_buildings_loop s region c pas acc = Inr es"
      by (cases r) (auto simp: is_in_region_def)
    from Cons.IH [OF this] False rm show ?thesis by (auto simp: em)
  qed
qed

text \<open>
  What \<open>process_region\<close> does, with the colour that \<open>get_sub_color\<close> gives for the
  colour of the sweep.
\<close>

lemma process_region_result:
  assumes en: "get_all_enemy_buildings_in_region s region c = Inr es"
    and wf: "board_wf (board s)"
    and reg: "\<forall>sq\<in>set region. is_on_board sq"
    and pl: "\<forall>pm\<in>set es. player pm = 0 \<or> player pm = 1"
  shows "es = enemy_moves s region c (history s)
     \<and> (2 \<le> length es \<longrightarrow> process_region s region c = Inr s)
     \<and> (length es < 2 \<longrightarrow>
          (\<exists>s'. process_region s region c = Inr s'
             \<and> (\<forall>sq. is_on_board sq \<longrightarrow>
                   cell_at (board s') sq =
                     (if sq \<in> set region then get_sub_color c
                      else if \<exists>pm\<in>set es. sq \<in> set (form (move pm)) then EMPTY
                      else cell_at (board s) sq))
             \<and> removed_moves s' = removed_moves s @ es
             \<and> players s' =
                 (case es of
                    [] \<Rightarrow> players s
                  | pm # _ \<Rightarrow>
                      (players s)
                        [nat (player pm) :=
                           (if building_type (move pm) = Cathedral
                            then players s ! nat (player pm)
                            else (players s ! nat (player pm))
                                   \<lparr> available_buildings :=
                                       (available_buildings (players s ! nat (player pm)))
                                         [nat (building_int (building_type (move pm))) :=
                                            available_buildings (players s ! nat (player pm))
                                              ! nat (building_int (building_type (move pm)))
                                            + 1] \<rparr>)])
             \<and> history s' = history s
             \<and> current_player s' = current_player s))"
proof (intro conjI impI)
  show "es = enemy_moves s region c (history s)"
    using enemy_buildings_loop_result [of s region c "history s" "[]" es] en
    by (simp add: get_all_enemy_buildings_in_region_def)
next
  assume "2 \<le> length es"
  then show "process_region s region c = Inr s"
    using en by (simp add: process_region_def)
next
  assume lt: "length es < 2"
  then consider (none) "es = []" | (one) pm where "es = [pm]"
    by (cases es; cases "tl es") auto
  then show "\<exists>s'. process_region s region c = Inr s'
             \<and> (\<forall>sq. is_on_board sq \<longrightarrow>
                   cell_at (board s') sq =
                     (if sq \<in> set region then get_sub_color c
                      else if \<exists>pm\<in>set es. sq \<in> set (form (move pm)) then EMPTY
                      else cell_at (board s) sq))
             \<and> removed_moves s' = removed_moves s @ es
             \<and> players s' =
                 (case es of
                    [] \<Rightarrow> players s
                  | pm # _ \<Rightarrow>
                      (players s)
                        [nat (player pm) :=
                           (if building_type (move pm) = Cathedral
                            then players s ! nat (player pm)
                            else (players s ! nat (player pm))
                                   \<lparr> available_buildings :=
                                       (available_buildings (players s ! nat (player pm)))
                                         [nat (building_int (building_type (move pm))) :=
                                            available_buildings (players s ! nat (player pm))
                                              ! nat (building_int (building_type (move pm)))
                                            + 1] \<rparr>)])
             \<and> history s' = history s
             \<and> current_player s' = current_player s"
  proof cases
    case none
    from place_color_cells [OF wf reg, of "get_sub_color c"]
    obtain b' where b': "place_color (board s) region (get_sub_color c) = Inr b'"
      "\<forall>sq. is_on_board sq \<longrightarrow>
        cell_at b' sq = (if sq \<in> set region then get_sub_color c else cell_at (board s) sq)"
      by blast
    with none en show ?thesis
      by (simp add: process_region_def)
  next
    case one
    with pl have p01: "player pm = 0 \<or> player pm = 1" by simp
    let ?s1 = "s\<lparr> board := clear_form (board s) (form (move pm)),
                  removed_moves := removed_moves s @ [pm],
                  players := (players s)
                    [nat (player pm) :=
                       return_building (players s ! nat (player pm))
                         (building_type (move pm))] \<rparr>"
    have rm: "remove_moves s es = Inr ?s1"
      using one p01 by (simp add: remove_move_def)
    from clear_form_cells [OF wf, of "form (move pm)"]
    have wf1: "board_wf (board ?s1)"
      and c1: "\<forall>sq. is_on_board sq \<longrightarrow>
        cell_at (board ?s1) sq = (if sq \<in> set (form (move pm)) then EMPTY else cell_at (board s) sq)"
      by simp_all
    from place_color_cells [OF wf1 reg, of "get_sub_color c"]
    obtain b' where b': "place_color (board ?s1) region (get_sub_color c) = Inr b'"
      "\<forall>sq. is_on_board sq \<longrightarrow>
        cell_at b' sq = (if sq \<in> set region then get_sub_color c else cell_at (board ?s1) sq)"
      by blast
    have pr: "process_region s region c = Inr (?s1\<lparr> board := b' \<rparr>)"
      using en lt rm b'(1) by (simp add: process_region_def)
    show ?thesis
      unfolding pr using b'(2) c1 one
      by (simp add: return_building_def)
  qed
qed

lemma get_sub_color_cases:
  "get_sub_color c =
     (if c = BLACK then BLACK_REGION else if c = WHITE then WHITE_REGION else EMPTY)"
  by (cases c) (simp_all add: get_sub_color_def)

text \<open>
  Claim C2. In a sweep for the colour \<open>c\<close>, the enemy buildings of a region are the
  historical moves that are not marked removed, have their anchor in the region and a
  placed colour other than \<open>c\<close>. With two or more of them the state is left as it is.
  With fewer than two, each of them (none or one) is removed: the move is appended to
  the removed moves, the building goes back to the inventory of its player unless it is
  the Cathedral, and the squares of its form are cleared; then every square of the
  region is set to the territory state of \<open>c\<close>, which is \<open>BLACK_REGION\<close> in the sweep for
  black and \<open>WHITE_REGION\<close> in the sweep for white, the two sweeps that \<open>build_regions\<close>
  runs (for any other colour the code has \<open>EMPTY\<close>). So a cell of the board ends as
  the territory of \<open>c\<close> when it is in the region, as empty when it is outside the region
  and in the form of the removed building, and as it was otherwise. The board is the
  10 x 10 array, the region lies on it, and the history holds moves of the players 0
  and 1.
\<close>

theorem process_region_capture:
  assumes en: "get_all_enemy_buildings_in_region s region c = Inr es"
    and wf: "board_wf (board s)"
    and reg: "\<forall>sq\<in>set region. is_on_board sq"
    and pl: "\<forall>pm\<in>set es. player pm = 0 \<or> player pm = 1"
  shows "es = enemy_moves s region c (history s)
     \<and> (2 \<le> length es \<longrightarrow> process_region s region c = Inr s)
     \<and> (length es < 2 \<longrightarrow>
          (\<exists>s'. process_region s region c = Inr s'
             \<and> (\<forall>sq. is_on_board sq \<longrightarrow>
                   cell_at (board s') sq =
                     (if sq \<in> set region
                      then (if c = BLACK then BLACK_REGION
                            else if c = WHITE then WHITE_REGION else EMPTY)
                      else if \<exists>pm\<in>set es. sq \<in> set (form (move pm)) then EMPTY
                      else cell_at (board s) sq))
             \<and> removed_moves s' = removed_moves s @ es
             \<and> players s' =
                 (case es of
                    [] \<Rightarrow> players s
                  | pm # _ \<Rightarrow>
                      (players s)
                        [nat (player pm) :=
                           (if building_type (move pm) = Cathedral
                            then players s ! nat (player pm)
                            else (players s ! nat (player pm))
                                   \<lparr> available_buildings :=
                                       (available_buildings (players s ! nat (player pm)))
                                         [nat (building_int (building_type (move pm))) :=
                                            available_buildings (players s ! nat (player pm))
                                              ! nat (building_int (building_type (move pm)))
                                            + 1] \<rparr>)])
             \<and> history s' = history s
             \<and> current_player s' = current_player s))"
  using process_region_result [OF en wf reg pl, unfolded get_sub_color_cases] .

text \<open>
  In the position after the Cathedral, the black Inn around the corner and the white
  Tavern in the corner: the sweep for black on the corner square removes the white
  Tavern and makes the square black territory; a sweep for white on the anchor of the
  Inn removes the Inn and makes the square white territory; a region with the anchors of
  the Cathedral and of the Tavern is contested in the sweep for black and left as it is.
\<close>

theorem process_region_capture_witness:
  "get_all_enemy_buildings_in_region pocket_position [Square 0 0] BLACK =
     Inr [\<lparr> player = 0, move = Move_make (Square 0 0) Tavern ROTATE_0 \<rparr>]
   \<and> board_wf (board pocket_position)
   \<and> cell_at (board pocket_position) (Square 0 0) = WHITE
   \<and> (\<exists>s'. process_region pocket_position [Square 0 0] BLACK = Inr s'
          \<and> cell_at (board s') (Square 0 0) = BLACK_REGION
          \<and> cell_at (board s') (Square 1 0) = BLACK
          \<and> removed_moves s' = [\<lparr> player = 0, move = Move_make (Square 0 0) Tavern ROTATE_0 \<rparr>]
          \<and> available_buildings (players s' ! 0) ! 0 = 2
          \<and> history s' = history pocket_position)
   \<and> get_all_enemy_buildings_in_region pocket_position [Square 1 0] WHITE =
       Inr [\<lparr> player = 1, move = Move_make (Square 1 0) Inn ROTATE_90 \<rparr>]
   \<and> cell_at (board pocket_position) (Square 1 0) = BLACK
   \<and> cell_at (board pocket_position) (Square 1 1) = BLACK
   \<and> (\<exists>s'. process_region pocket_position [Square 1 0] WHITE = Inr s'
          \<and> cell_at (board s') (Square 1 0) = WHITE_REGION
          \<and> cell_at (board s') (Square 1 1) = EMPTY
          \<and> cell_at (board s') (Square 0 0) = WHITE
          \<and> removed_moves s' = [\<lparr> player = 1, move = Move_make (Square 1 0) Inn ROTATE_90 \<rparr>]
          \<and> available_buildings (players s' ! 1) ! 2 = 2
          \<and> history s' = history pocket_position)
   \<and> get_all_enemy_buildings_in_region pocket_position [Square 5 5, Square 0 0] BLACK =
       Inr [\<lparr> player = 0, move = Move_make (Square 5 5) Cathedral ROTATE_0 \<rparr>,
            \<lparr> player = 0, move = Move_make (Square 0 0) Tavern ROTATE_0 \<rparr>]
   \<and> process_region pocket_position [Square 5 5, Square 0 0] BLACK = Inr pocket_position"
proof -
  let ?pm = "\<lparr> player = 0, move = Move_make (Square 0 0) Tavern ROTATE_0 \<rparr>"
  let ?qm = "\<lparr> player = 1, move = Move_make (Square 1 0) Inn ROTATE_90 \<rparr>"
  let ?cm = "\<lparr> player = 0, move = Move_make (Square 5 5) Cathedral ROTATE_0 \<rparr>"
  have wf: "board_wf (board pocket_position)" by code_simp
  have len: "length (players pocket_position) = 2"
    "length (available_buildings (players pocket_position ! 0)) = 14"
    "length (available_buildings (players pocket_position ! 1)) = 14"
    by code_simp+
  have on: "is_on_board (Square 0 0)" "is_on_board (Square 1 0)" "is_on_board (Square 1 1)"
    by code_simp+
  have w: "cell_at (board pocket_position) (Square 0 0) = WHITE" by code_simp
  have k: "cell_at (board pocket_position) (Square 1 0) = BLACK" by code_simp
  have k1: "cell_at (board pocket_position) (Square 1 1) = BLACK" by code_simp

  have en: "get_all_enemy_buildings_in_region pocket_position [Square 0 0] BLACK = Inr [?pm]"
    by code_simp
  have reg: "\<forall>sq\<in>set [Square 0 0]. is_on_board sq" by code_simp
  have pl: "\<forall>pm\<in>set [?pm]. player pm = 0 \<or> player pm = 1" by simp
  have frm: "Square 1 0 \<notin> set (form (move ?pm))" by code_simp
  have inv: "available_buildings (players pocket_position ! 0) ! 0 = 1" by code_simp
  from process_region_capture [OF en wf reg pl]
  obtain s' where s': "process_region pocket_position [Square 0 0] BLACK = Inr s'"
    and cells: "\<forall>sq. is_on_board sq \<longrightarrow>
        cell_at (board s') sq =
          (if sq \<in> set [Square 0 0] then BLACK_REGION
           else if \<exists>pm\<in>set [?pm]. sq \<in> set (form (move pm)) then EMPTY
           else cell_at (board pocket_position) sq)"
    and rem: "removed_moves s' = removed_moves pocket_position @ [?pm]"
    and pls: "players s' =
        (players pocket_position)
          [nat (player ?pm) :=
             (if building_type (move ?pm) = Cathedral
              then players pocket_position ! nat (player ?pm)
              else (players pocket_position ! nat (player ?pm))
                     \<lparr> available_buildings :=
                         (available_buildings (players pocket_position ! nat (player ?pm)))
                           [nat (building_int (building_type (move ?pm))) :=
                              available_buildings (players pocket_position ! nat (player ?pm))
                                ! nat (building_int (building_type (move ?pm)))
                              + 1] \<rparr>)]"
    and hist: "history s' = history pocket_position"
    by auto
  have c0: "cell_at (board s') (Square 0 0) = BLACK_REGION"
    using cells on(1) by simp
  have c1: "cell_at (board s') (Square 1 0) = BLACK"
    using cells on(2) frm k by simp
  have r: "removed_moves s' = [?pm]"
    using rem by (simp add: pocket_position_def)
  have pls': "players s' =
      (players pocket_position)
        [0 := (players pocket_position ! 0)
                \<lparr> available_buildings :=
                    (available_buildings (players pocket_position ! 0))
                      [0 := available_buildings (players pocket_position ! 0) ! 0 + 1] \<rparr>]"
    using pls by (simp add: Move_make_def)
  have i: "available_buildings (players s' ! 0) ! 0 = 2"
    using inv len by (simp add: pls')
  from s' c0 c1 r i hist
  have black: "\<exists>s'. process_region pocket_position [Square 0 0] BLACK = Inr s'
          \<and> cell_at (board s') (Square 0 0) = BLACK_REGION
          \<and> cell_at (board s') (Square 1 0) = BLACK
          \<and> removed_moves s' = [?pm]
          \<and> available_buildings (players s' ! 0) ! 0 = 2
          \<and> history s' = history pocket_position"
    by blast

  have en2: "get_all_enemy_buildings_in_region pocket_position [Square 1 0] WHITE = Inr [?qm]"
    by code_simp
  have reg2: "\<forall>sq\<in>set [Square 1 0]. is_on_board sq" by code_simp
  have pl2: "\<forall>pm\<in>set [?qm]. player pm = 0 \<or> player pm = 1" by simp
  have frm2: "Square 1 1 \<in> set (form (move ?qm))" "Square 0 0 \<notin> set (form (move ?qm))"
    by code_simp+
  have inv2: "available_buildings (players pocket_position ! 1) ! 2 = 1" by code_simp
  from process_region_capture [OF en2 wf reg2 pl2]
  obtain t' where t': "process_region pocket_position [Square 1 0] WHITE = Inr t'"
    and cells2: "\<forall>sq. is_on_board sq \<longrightarrow>
        cell_at (board t') sq =
          (if sq \<in> set [Square 1 0] then WHITE_REGION
           else if \<exists>pm\<in>set [?qm]. sq \<in> set (form (move pm)) then EMPTY
           else cell_at (board pocket_position) sq)"
    and rem2: "removed_moves t' = removed_moves pocket_position @ [?qm]"
    and pls2: "players t' =
        (players pocket_position)
          [nat (player ?qm) :=
             (if building_type (move ?qm) = Cathedral
              then players pocket_position ! nat (player ?qm)
              else (players pocket_position ! nat (player ?qm))
                     \<lparr> available_buildings :=
                         (available_buildings (players pocket_position ! nat (player ?qm)))
                           [nat (building_int (building_type (move ?qm))) :=
                              available_buildings (players pocket_position ! nat (player ?qm))
                                ! nat (building_int (building_type (move ?qm)))
                              + 1] \<rparr>)]"
    and hist2: "history t' = history pocket_position"
    by auto
  have e0: "cell_at (board t') (Square 1 0) = WHITE_REGION"
    using cells2 on(2) by simp
  have e1: "cell_at (board t') (Square 1 1) = EMPTY"
    using cells2 on(3) frm2(1) by simp
  have e2: "cell_at (board t') (Square 0 0) = WHITE"
    using cells2 on(1) frm2(2) w by simp
  have r2: "removed_moves t' = [?qm]"
    using rem2 by (simp add: pocket_position_def)
  have pls2': "players t' =
      (players pocket_position)
        [1 := (players pocket_position ! 1)
                \<lparr> available_buildings :=
                    (available_buildings (players pocket_position ! 1))
                      [2 := available_buildings (players pocket_position ! 1) ! 2 + 1] \<rparr>]"
    using pls2 by (simp add: Move_make_def)
  have i2: "available_buildings (players t' ! 1) ! 2 = 2"
    using inv2 len by (simp add: pls2')
  from t' e0 e1 e2 r2 i2 hist2
  have white: "\<exists>s'. process_region pocket_position [Square 1 0] WHITE = Inr s'
          \<and> cell_at (board s') (Square 1 0) = WHITE_REGION
          \<and> cell_at (board s') (Square 1 1) = EMPTY
          \<and> cell_at (board s') (Square 0 0) = WHITE
          \<and> removed_moves s' = [?qm]
          \<and> available_buildings (players s' ! 1) ! 2 = 2
          \<and> history s' = history pocket_position"
    by blast

  have en3: "get_all_enemy_buildings_in_region pocket_position [Square 5 5, Square 0 0] BLACK
      = Inr [?cm, ?pm]"
    by code_simp
  have reg3: "\<forall>sq\<in>set [Square 5 5, Square 0 0]. is_on_board sq" by code_simp
  have pl3: "\<forall>pm\<in>set [?cm, ?pm]. player pm = 0 \<or> player pm = 1" by simp
  from process_region_capture [OF en3 wf reg3 pl3]
  have contested: "process_region pocket_position [Square 5 5, Square 0 0] BLACK
      = Inr pocket_position"
    by simp
  from en wf w black en2 k k1 white en3 contested show ?thesis by blast
qed

section \<open>Legal actions and the positions of play\<close>

lemma decode_move_Move_make:
  "decode_move a = Inr m \<Longrightarrow>
   \<exists>p t r. m = Move_make p t r
     \<and> rotation_int r \<le> turnable_int (turnable (get_instance t))"
  by (auto simp: decode_move_def Let_def split: option.splits dest!: Move_ctor_Inr)

lemma in_concat_map: "y \<in> set ys \<Longrightarrow> m \<in> set (f y) \<Longrightarrow> m \<in> set (concat (map f ys))"
  by auto

lemma in_get_possible_moves_type:
  assumes "is_building_available (players s ! nat pl) t" "is_on_board p"
    and "rotation_int r \<le> turnable_int (turnable (get_instance t))"
    and "is_move_valid (board s) (Move_make p t r) pl"
  shows "Move_make p t r \<in> set (get_possible_moves_type s t pl)"
proof -
  obtain x y where p: "p = Square x y" by (cases p)
  from assms(2) p have xy: "x \<in> set [0..9]" "y \<in> set [0..9]"
    by (simp_all add: is_on_board_def)
  have "r \<in> set all_rotations" by (cases r) (simp_all add: all_rotations_def)
  with assms(3) have r: "r \<in> set (candidate_rotations t)"
    by (simp add: candidate_rotations_set)
  let ?cell = "\<lambda>y x. filter (\<lambda>m. is_move_valid (board s) m pl)
                 (map (\<lambda>r. Move_make (Square x y) t r) (candidate_rotations t))"
  let ?row = "\<lambda>y. concat (map (?cell y) [0..9])"
  have "Move_make (Square x y) t r \<in> set (?cell y x)"
    using assms(4) r p by simp
  then have "Move_make (Square x y) t r \<in> set (?row y)"
    by (rule in_concat_map [OF xy(1), of _ "?cell y"])
  then have "Move_make (Square x y) t r \<in> set (concat (map ?row [0..9]))"
    by (rule in_concat_map [OF xy(2), of _ ?row])
  then show ?thesis
    using assms(1) by (simp only: get_possible_moves_type_def p if_False simp_thms)
qed

lemma is_legal_action_LegalActions:
  assumes "is_legal_action s a"
  shows "a \<in> set (LegalActions s)"
proof -
  from assms obtain m where m: "decode_move a = Inr m"
    and on: "is_on_board (pos m)"
    and av: "is_building_available (players s ! nat (current_player s)) (building_type m)"
    and v: "is_move_valid (board s) m (current_player s)"
    and first: "get_move_count s = 0 \<Longrightarrow> building_type m = Cathedral"
    by (auto simp: is_legal_action_def Move_of_action_def split: sum.splits if_splits)
  from decode_move_Move_make [OF m] obtain p t r where mm: "m = Move_make p t r"
    and leg: "rotation_int r \<le> turnable_int (turnable (get_instance t))"
    by blast
  have fields: "pos m = p" "building_type m = t" by (simp_all add: mm Move_make_def)
  have av': "is_building_available (players s ! nat (current_player s)) t"
    using av by (simp only: fields)
  have on': "is_on_board p" using on by (simp only: fields)
  have v': "is_move_valid (board s) (Move_make p t r) (current_player s)"
    using v by (simp only: mm)
  have mem: "m \<in> set (get_possible_moves_type s t (current_player s))"
    unfolding mm by (rule in_get_possible_moves_type [OF av' on' leg v'])
  have "m \<in> set (get_possible_moves s (current_player s))"
  proof (cases "get_move_count s = 0")
    case True
    with first fields have "t = Cathedral" by simp
    with mem True show ?thesis
      by (simp add: get_possible_moves_def white_specific_buildings_def)
  next
    case False
    have "t \<in> set all_building_types" by (cases t) (simp_all add: all_building_types_def)
    with av fields have "t \<in> set (get_available_building_types
        (players s ! nat (current_player s)))"
      by (simp add: get_available_building_types_def is_building_available_def)
    with mem False show ?thesis
      by (auto simp: get_possible_moves_def generate_all_possible_moves_def)
  qed
  moreover have "encode m = a" using m by (rule decode_move_Inr)
  ultimately show ?thesis by (force simp: LegalActions_def)
qed

lemma play_legal_reachable:
  "reachable s \<Longrightarrow> play_legal s as = Some s' \<Longrightarrow> reachable s'"
proof (induction as arbitrary: s)
  case Nil
  then show ?case by simp
next
  case (Cons a as)
  from Cons.prems(2) obtain s1 where l: "is_legal_action s a"
    and a: "ApplyAction s a = Inr s1" and rest: "play_legal s1 as = Some s'"
    by (auto split: if_splits sum.splits)
  from reachable.step [OF Cons.prems(1) is_legal_action_LegalActions [OF l] a]
  have "reachable s1" .
  from Cons.IH [OF this rest] show ?case .
qed

section \<open>The two games\<close>

text \<open>The positions are what the actions of the games lead to, each action being legal.\<close>

lemma position_after_cathedral_played:
  "play_legal CathedralState_ctor [5255] = Some position_after_cathedral"
  by code_simp

lemma position_after_cathedral_reachable: "reachable position_after_cathedral"
  using play_legal_reachable [OF reachable.initial position_after_cathedral_played] .

lemma pocket_position_played:
  "play_legal CathedralState_ctor [5255, 901, 0] = Some pocket_position"
  by code_simp

lemma captured_position_played:
  "play_legal pocket_position [99] = Some captured_position"
  by code_simp

lemma captured_position_reachable: "reachable captured_position"
proof -
  have "reachable pocket_position"
    using play_legal_reachable [OF reachable.initial pocket_position_played] .
  then show ?thesis
    using captured_position_played by (rule play_legal_reachable)
qed

lemma final_position_played:
  "play_legal captured_position (drop 4 finished_game) = Some final_position"
  by code_simp

lemma final_position_reachable: "reachable final_position"
  using captured_position_reachable final_position_played by (rule play_legal_reachable)

lemma final_position_finished: "is_finished final_position"
  by code_simp

lemma final_position_score: "calc_score final_position = Inr (0, 46)"
  by code_simp

lemma position_before_fourth_move_played:
  "play_legal CathedralState_ctor [5255, 901, 99] = Some position_before_fourth_move"
  by code_simp

lemma fourth_move_legal: "is_legal_action position_before_fourth_move 9"
  by code_simp

lemma fourth_move_applied:
  "ApplyAction position_before_fourth_move 9 = Inr position_after_fourth_move"
  by code_simp

lemma fourth_move_undone:
  "undo_move position_after_fourth_move = Inr position_after_undo"
  by code_simp

lemma corner_square_before_and_after:
  "cell_at (board position_before_fourth_move) (Square 0 0) = EMPTY
   \<and> cell_at (board position_after_undo) (Square 0 0) = BLACK_REGION"
  by code_simp

lemma fifth_move_legal: "is_legal_action captured_position 4912"
  by code_simp

lemma fifth_move_undone: "apply_then_undo captured_position 4912 = Inr capture_undone"
  by code_simp

lemma centre_square_before_and_after:
  "cell_at (board captured_position) (Square 5 5) = WHITE_REGION
   \<and> cell_at (board capture_undone) (Square 5 5) = BLACK_REGION
   \<and> current_player captured_position = 0
   \<and> current_player capture_undone = 1"
  by code_simp

text \<open>
  The same five actions with the history entry appended before the move is applied: the
  position before the fifth move has two black Taverns in the inventory, and undoing the
  fifth move leaves one.
\<close>

lemma captured_position_entry_first_played:
  "play_legal_entry_first CathedralState_ctor [5255, 901, 0, 99] =
     Some captured_position_entry_first"
  by code_simp

lemma undo_fails_entry_first:
  "is_legal_action captured_position_entry_first 4912
   \<and> apply_then_undo_entry_first captured_position_entry_first 4912 =
       Inr capture_undone_entry_first
   \<and> available_buildings (players captured_position_entry_first ! 1) ! 0 = 2
   \<and> available_buildings (players capture_undone_entry_first ! 1) ! 0 = 1"
  by code_simp

section \<open>Actions of the action range (claim C6)\<close>

text \<open>
  Claim C6, as the code has it. For every action id of the range [0, 5600) the engine
  decodes the id without reading outside its tables, and \<open>DoApplyAction\<close> does one of
  four things. When the decoded rotation is not allowed for the decoded building, the
  constructor of \<open>Move\<close> throws \<open>std::invalid_argument\<close>. When the move does not fit the
  board, \<open>make_move\<close> returns false and the state is as it was. Otherwise
  \<open>place_building\<close> paints the move on the board, whether or not the current player has
  a piece of the building, and only then \<open>use_building\<close> looks at the inventory: with
  a piece left the move is applied, with none \<open>use_building\<close> throws
  \<open>std::out_of_range\<close>, and the exception leaves the object as \<open>place_building\<close> left
  it, the form painted. So an id of the range that is not a legal action is not always
  reported as an invalid move.
\<close>

theorem DoApplyAction_on_action_range:
  assumes "0 \<le> a" "a < 5600"
  shows "DoApplyAction s a =
     (if rotation_int (action_rotation a)
           > turnable_int (turnable (get_instance (action_building a)))
      then Inl InvalidArgument
      else if \<not> is_move_valid (board s)
                  (Move_make (action_anchor a) (action_building a) (action_rotation a))
                  (current_player s)
      then Inr s
      else (case place_building s
                   (Move_make (action_anchor a) (action_building a) (action_rotation a)) of
              Inl e \<Rightarrow> Inl e
            | Inr s1 \<Rightarrow>
                if \<not> is_building_available (players s1 ! nat (current_player s1))
                       (action_building a)
                then Inl OutOfRange
                else Inr (update_current_player
                            (s1\<lparr> players := (players s1)
                                  [nat (current_player s1) :=
                                     (players s1 ! nat (current_player s1))
                                       \<lparr> available_buildings :=
                                           (available_buildings
                                              (players s1 ! nat (current_player s1)))
                                             [nat (building_int (action_building a)) :=
                                                available_buildings
                                                  (players s1 ! nat (current_player s1))
                                                  ! nat (building_int (action_building a))
                                                - 1] \<rparr>] \<rparr>))))"
  using decode_move_in_range [OF assms]
  by (auto simp: DoApplyAction_def Move_of_action_def make_move_def Move_ctor_def Move_make_def
      make_unvalidated_move_def use_building_def Let_def split: sum.splits)

text \<open>
  After the Cathedral black is to move. The id 2811 is the White Abbey at (1, 1), a
  building of white's that black does not have, and not a legal action. Its four squares
  are empty, so the move fits the board; \<open>place_building\<close> paints them black, and
  \<open>use_building\<close> throws. The other three ids: the Cathedral at (5, 5) is applied to the
  initial state, the Cathedral at (0, 5) does not fit the board, and the Tavern rotated
  by 270 degrees is thrown by the constructor.
\<close>

theorem DoApplyAction_on_action_range_witness:
  "(0::int) \<le> 2811 \<and> (2811::int) < 5600
   \<and> reachable position_after_cathedral
   \<and> current_player position_after_cathedral = 1
   \<and> action_building 2811 = White_Abbey
   \<and> action_rotation 2811 = ROTATE_0
   \<and> action_anchor 2811 = Square 1 1
   \<and> rotation_int ROTATE_0 \<le> turnable_int (turnable (get_instance White_Abbey))
   \<and> is_move_valid (board position_after_cathedral)
        (Move_make (Square 1 1) White_Abbey ROTATE_0) 1
   \<and> \<not> is_building_available (players position_after_cathedral ! 1) White_Abbey
   \<and> \<not> is_legal_action position_after_cathedral 2811
   \<and> (\<exists>s1. place_building position_after_cathedral
               (Move_make (Square 1 1) White_Abbey ROTATE_0) = Inr s1
           \<and> cell_at (board position_after_cathedral) (Square 1 1) = EMPTY
           \<and> cell_at (board s1) (Square 1 1) = BLACK)
   \<and> DoApplyAction position_after_cathedral 2811 = Inl OutOfRange
   \<and> (0::int) \<le> 5255 \<and> (5255::int) < 5600
   \<and> DoApplyAction CathedralState_ctor 5255 =
       Inr (position_after_cathedral\<lparr> history := [], move_number := 0 \<rparr>)
   \<and> (0::int) \<le> 5250 \<and> (5250::int) < 5600
   \<and> DoApplyAction CathedralState_ctor 5250 = Inr CathedralState_ctor
   \<and> (0::int) \<le> 300 \<and> (300::int) < 5600
   \<and> DoApplyAction CathedralState_ctor 300 = Inl InvalidArgument"
proof -
  let ?s = position_after_cathedral
  let ?m = "Move_make (Square 1 1) White_Abbey ROTATE_0"
  let ?s1 = "?s\<lparr> board := \<lparr> field =
           [replicate 10 EMPTY,
            [EMPTY, BLACK, BLACK, EMPTY, EMPTY, EMPTY, EMPTY, EMPTY, EMPTY, EMPTY],
            [BLACK, BLACK, EMPTY, EMPTY, EMPTY, EMPTY, EMPTY, EMPTY, EMPTY, EMPTY],
            replicate 10 EMPTY,
            [EMPTY, EMPTY, EMPTY, EMPTY, EMPTY, BLUE, EMPTY, EMPTY, EMPTY, EMPTY],
            [EMPTY, EMPTY, EMPTY, EMPTY, BLUE, BLUE, BLUE, EMPTY, EMPTY, EMPTY],
            [EMPTY, EMPTY, EMPTY, EMPTY, EMPTY, BLUE, EMPTY, EMPTY, EMPTY, EMPTY],
            [EMPTY, EMPTY, EMPTY, EMPTY, EMPTY, BLUE, EMPTY, EMPTY, EMPTY, EMPTY],
            replicate 10 EMPTY,
            replicate 10 EMPTY] \<rparr> \<rparr>"
  have cp: "current_player ?s = 1" by (simp add: position_after_cathedral_def)
  have a0: "action_building 2811 = White_Abbey" "action_rotation 2811 = ROTATE_0"
    "action_anchor 2811 = Square 1 1"
    by code_simp+
  have r0: "rotation_int ROTATE_0 \<le> turnable_int (turnable (get_instance White_Abbey))"
    by code_simp
  have v0: "is_move_valid (board ?s) ?m 1" by code_simp
  have n0: "\<not> is_building_available (players ?s ! 1) White_Abbey" by code_simp
  have l0: "\<not> is_legal_action ?s 2811" by code_simp
  have p0: "place_building ?s ?m = Inr ?s1" by code_simp
  have e0: "cell_at (board ?s) (Square 1 1) = EMPTY" by code_simp
  have b0: "cell_at (board ?s1) (Square 1 1) = BLACK" by code_simp
  have n1: "\<not> is_building_available (players ?s1 ! nat (current_player ?s1)) White_Abbey"
    by code_simp
  have d0: "DoApplyAction ?s 2811 = Inl OutOfRange"
    using DoApplyAction_on_action_range [of 2811 ?s] r0 v0 n1
    by (simp add: a0 cp p0)
  have a1: "action_building 5255 = Cathedral" "action_rotation 5255 = ROTATE_0"
    "action_anchor 5255 = Square 5 5"
    by code_simp+
  have a2: "action_building 5250 = Cathedral" "action_rotation 5250 = ROTATE_0"
    "action_anchor 5250 = Square 0 5"
    by code_simp+
  have a3: "action_building 300 = Tavern" "action_rotation 300 = ROTATE_270"
    by code_simp+
  have r1: "\<not> rotation_int ROTATE_0 > turnable_int (turnable (get_instance Cathedral))"
    by code_simp
  have r3: "rotation_int ROTATE_270 > turnable_int (turnable (get_instance Tavern))"
    by code_simp
  have v1: "is_move_valid (board CathedralState_ctor)
      (Move_make (Square 5 5) Cathedral ROTATE_0) (current_player CathedralState_ctor)"
    by code_simp
  have v2: "\<not> is_move_valid (board CathedralState_ctor)
      (Move_make (Square 0 5) Cathedral ROTATE_0) (current_player CathedralState_ctor)"
    by code_simp
  let ?c = "Move_make (Square 5 5) Cathedral ROTATE_0"
  let ?t1 = "CathedralState_ctor\<lparr> board := board ?s \<rparr>"
  have p1: "place_building CathedralState_ctor ?c = Inr ?t1" by code_simp
  have av1: "is_building_available (players ?t1 ! nat (current_player ?t1)) Cathedral"
    by code_simp
  have u1: "update_current_player
              (?t1\<lparr> players := (players ?t1)
                    [nat (current_player ?t1) :=
                       (players ?t1 ! nat (current_player ?t1))
                         \<lparr> available_buildings :=
                             (available_buildings (players ?t1 ! nat (current_player ?t1)))
                               [nat (building_int Cathedral) :=
                                  available_buildings (players ?t1 ! nat (current_player ?t1))
                                    ! nat (building_int Cathedral)
                                  - 1] \<rparr>] \<rparr>)
            = ?s\<lparr> history := [], move_number := 0 \<rparr>"
    by code_simp
  have d1: "DoApplyAction CathedralState_ctor 5255 =
      Inr (?s\<lparr> history := [], move_number := 0 \<rparr>)"
    using DoApplyAction_on_action_range [of 5255 CathedralState_ctor] r1 v1 av1
    by (simp only: a1 p1 u1 sum.case if_False if_True simp_thms)
  have d2: "DoApplyAction CathedralState_ctor 5250 = Inr CathedralState_ctor"
    using DoApplyAction_on_action_range [of 5250 CathedralState_ctor] r1 v2
    by (simp add: a2)
  have d3: "DoApplyAction CathedralState_ctor 300 = Inl InvalidArgument"
    using DoApplyAction_on_action_range [of 300 CathedralState_ctor] r3
    by (simp add: a3)
  from position_after_cathedral_reachable cp a0 r0 v0 n0 l0 p0 e0 b0 d0 d1 d2 d3
  show ?thesis by simp
qed

text \<open>
  The action 100 is the Tavern, which has no rotation, rotated by 90 degrees: applying it
  to the initial state throws.
\<close>

lemma invalid_rotation_is_thrown:
  "(0::int) \<le> 100 \<and> (100::int) < 5600
   \<and> DoApplyAction CathedralState_ctor 100 = Inl InvalidArgument"
  by code_simp

section \<open>Scoring (claim C1)\<close>

lemma calc_score_loop_result:
  "calc_score_loop s pas (w, b) = Inr (w', b') \<Longrightarrow>
   w' = w - squares_placed s WHITE pas \<and> b' = b - squares_placed s BLACK pas"
proof (induction pas arbitrary: w b)
  case Nil
  then show ?case by (simp add: squares_placed_def)
next
  case (Cons pa pas)
  from Cons.prems obtain r where r: "is_piece_removed s pa = Inr r"
    by (auto split: sum.splits)
  then obtain m where m: "Move_of_action (snd pa) = Inr m"
    using is_piece_removed_Inr by blast
  with r have rm: "r = marked_removed s (fst pa) m"
    using is_piece_removed_marked [OF m, of s] by simp
  have sp: "squares_placed s c (pa # pas) =
      (if \<not> marked_removed s (fst pa) m \<and> get_square_color m (fst pa) = c
       then int (length (form m)) else 0) + squares_placed s c pas" for c
    by (simp add: squares_placed_def m)
  show ?case
  proof (cases r)
    case True
    with Cons.prems r have "calc_score_loop s pas (w, b) = Inr (w', b')" by simp
    from Cons.IH [OF this] True rm show ?thesis by (simp add: sp)
  next
    case False
    consider (black) "get_square_color m (fst pa) = BLACK"
      | (white) "get_square_color m (fst pa) = WHITE"
      | (other) "get_square_color m (fst pa) \<noteq> BLACK" "get_square_color m (fst pa) \<noteq> WHITE"
      by blast
    then show ?thesis
    proof cases
      case black
      with Cons.prems r m False
      have "calc_score_loop s pas (w, b - int (length (form m))) = Inr (w', b')"
        by (simp add: Let_def)
      from Cons.IH [OF this] False rm black show ?thesis by (simp add: sp)
    next
      case white
      with Cons.prems r m False
      have "calc_score_loop s pas (w - int (length (form m)), b) = Inr (w', b')"
        by (simp add: Let_def)
      from Cons.IH [OF this] False rm white show ?thesis by (simp add: sp)
    next
      case other
      with Cons.prems r m False
      have "calc_score_loop s pas (w, b) = Inr (w', b')"
        by (simp add: Let_def)
      from Cons.IH [OF this] False rm other show ?thesis by (simp add: sp)
    qed
  qed
qed

lemma update_current_player_history: "history (update_current_player s) = history s"
  by (simp add: update_current_player_def Let_def)

lemma make_unvalidated_move_history:
  "make_unvalidated_move s m = Inr s' \<Longrightarrow> history s' = history s"
  by (auto simp: make_unvalidated_move_def update_current_player_history
      split: sum.splits dest!: place_building_keeps)

lemma ApplyAction_history:
  assumes "ApplyAction s a = Inr s'"
  shows "\<exists>p m. history s' = history s @ [(p, a)] \<and> Move_of_action a = Inr m"
proof -
  from assms obtain s1 where d: "DoApplyAction s a = Inr s1"
    and s': "history s' = history s1 @ [(CurrentPlayer s, a)]"
    by (auto simp: ApplyAction_def Let_def split: sum.splits)
  from d obtain m where m: "Move_of_action a = Inr m"
    by (auto simp: DoApplyAction_def split: sum.splits)
  from d m have "history s1 = history s"
    by (auto simp: DoApplyAction_def make_move_def split: sum.splits if_splits
        dest!: make_unvalidated_move_history)
  with s' m show ?thesis by simp
qed

lemma reachable_history_decodes:
  "reachable s \<Longrightarrow> \<forall>pa\<in>set (history s). \<exists>m. Move_of_action (snd pa) = Inr m"
proof (induction rule: reachable.induct)
  case initial
  show ?case by (simp add: CathedralState_ctor_def)
next
  case (step s a s')
  from ApplyAction_history [OF step.hyps(3)] step.IH show ?case by auto
qed

lemma calc_score_loop_total:
  "\<forall>pa\<in>set pas. \<exists>m. Move_of_action (snd pa) = Inr m \<Longrightarrow>
   \<exists>w' b'. calc_score_loop s pas (w, b) = Inr (w', b')"
proof (induction pas arbitrary: w b)
  case Nil
  show ?case by simp
next
  case (Cons pa pas)
  then obtain m where m: "Move_of_action (snd pa) = Inr m" by auto
  from Cons have ih: "\<exists>w' b'. calc_score_loop s pas (w, b) = Inr (w', b')" for w b
    by simp
  show ?case
    using ih
    by (cases "marked_removed s (fst pa) m")
      (simp_all add: is_piece_removed_marked [OF m] m Let_def)
qed

text \<open>
  Claim C1, as the code has it. At every finished position of play the score of a player
  is 47 minus the squares of the historical moves placed in the colour of the player and
  not marked removed; a Cathedral is placed in the neutral colour and counts for neither
  player. The score is what a player has left to place, and the lower score wins: the
  player with the strictly lower score has utility +1, the player with the strictly
  higher score has utility -1, and equal scores are a draw (0, 0).
\<close>

theorem lower_score_wins:
  assumes "reachable s" and "is_finished s"
  shows "\<exists>white_score black_score.
           calc_score s = Inr (white_score, black_score)
         \<and> white_score = 47 - squares_placed s WHITE (history s)
         \<and> black_score = 47 - squares_placed s BLACK (history s)
         \<and> Returns s =
             Inr (if white_score < black_score then [1, - 1]
                  else if black_score < white_score then [- 1, 1]
                  else [0, 0])"
proof -
  from calc_score_loop_total [OF reachable_history_decodes [OF assms(1)], of s 47 47]
  obtain w b where c: "calc_score s = Inr (w, b)"
    by (auto simp: calc_score_def)
  from calc_score_loop_result [of s "history s" 47 47 w b] c
  have "w = 47 - squares_placed s WHITE (history s)"
    and "b = 47 - squares_placed s BLACK (history s)"
    by (simp_all add: calc_score_def)
  moreover have "Returns s =
      Inr (if w < b then [1, - 1] else if b < w then [- 1, 1] else [0, 0])"
    using assms(2) c by (simp add: Returns_def)
  ultimately show ?thesis using c by blast
qed

theorem lower_score_wins_witness:
  "reachable final_position
   \<and> is_finished final_position
   \<and> calc_score final_position = Inr (0, 46)
   \<and> squares_placed final_position WHITE (history final_position) = 47
   \<and> squares_placed final_position BLACK (history final_position) = 1
   \<and> Returns final_position = Inr [1, - 1]"
proof -
  from lower_score_wins [OF final_position_reachable final_position_finished]
    final_position_score
  have "squares_placed final_position WHITE (history final_position) = 47"
    and "squares_placed final_position BLACK (history final_position) = 1"
    and "Returns final_position = Inr [1, - 1]"
    by auto
  with final_position_reachable final_position_finished final_position_score
  show ?thesis by blast
qed

text \<open>
  At the end of the game \<open>finished_game\<close> white has score 0 and black has score 46:
  black has the strictly higher score, and its utility is -1.
\<close>

theorem higher_score_loses:
  "reachable final_position
   \<and> is_finished final_position
   \<and> calc_score final_position = Inr (0, 46)
   \<and> Returns final_position = Inr [1, - 1]"
proof -
  have "Returns final_position = Inr [1, - 1]"
    using final_position_finished final_position_score by (simp add: Returns_def)
  with final_position_reachable final_position_finished final_position_score
  show ?thesis by blast
qed

section \<open>Undo (claim C3)\<close>

text \<open>
  Claim C3 says that undoing a legal move of a reachable position restores the board, the
  inventories and the current player of the position. \<open>undo_move\<close> resets the state and
  replays the remaining history with \<open>make_unvalidated_move\<close>, but during the replay the
  history is already whole: \<open>get_move_count\<close> is the length of the remaining history at
  every replayed move, not the number of moves replayed so far, and the enemy buildings
  of a region are counted over moves that are not yet replayed.

  After the actions 5255, 901 and 99 no region sweep has run (the move count was 0, 1 and
  2) and the corner square (0, 0), which the black Inn cuts off, is empty. The black
  Tavern 9 is legal there. Undoing it replays the three moves with move count 3, which
  forces the sweep at each of them: the corner square becomes black territory.

  After the actions 5255, 901, 0 and 99 the sweep of the fourth move has captured the
  whole board for white, who is to move. The white Tower 4912 is legal there. Undoing it
  replays the four moves with move count 4: the sweep runs at the second move already
  and counts the black Tavern of the fourth move, the board ends as black territory and
  the turn as black's.
\<close>

theorem undo_does_not_restore_the_board:
  "reachable position_before_fourth_move
   \<and> 9 \<in> set (LegalActions position_before_fourth_move)
   \<and> ApplyAction position_before_fourth_move 9 = Inr position_after_fourth_move
   \<and> undo_move position_after_fourth_move = Inr position_after_undo
   \<and> cell_at (board position_before_fourth_move) (Square 0 0) = EMPTY
   \<and> cell_at (board position_after_undo) (Square 0 0) = BLACK_REGION
   \<and> reachable captured_position
   \<and> 4912 \<in> set (LegalActions captured_position)
   \<and> apply_then_undo captured_position 4912 = Inr capture_undone
   \<and> cell_at (board captured_position) (Square 5 5) = WHITE_REGION
   \<and> cell_at (board capture_undone) (Square 5 5) = BLACK_REGION
   \<and> current_player captured_position = 0
   \<and> current_player capture_undone = 1"
proof -
  have "reachable position_before_fourth_move"
    using play_legal_reachable [OF reachable.initial position_before_fourth_move_played] .
  moreover have "9 \<in> set (LegalActions position_before_fourth_move)"
    using fourth_move_legal by (rule is_legal_action_LegalActions)
  moreover have "4912 \<in> set (LegalActions captured_position)"
    using fifth_move_legal by (rule is_legal_action_LegalActions)
  ultimately show ?thesis
    using fourth_move_applied fourth_move_undone corner_square_before_and_after
      captured_position_reachable fifth_move_undone centre_square_before_and_after
    by blast
qed

theorem undo_does_not_restore_the_board_witness:
  "board position_after_undo \<noteq> board position_before_fourth_move
   \<and> history position_after_undo = history position_before_fourth_move
   \<and> board capture_undone \<noteq> board captured_position
   \<and> history capture_undone = history captured_position"
proof -
  from undo_does_not_restore_the_board
  have "cell_at (board position_before_fourth_move) (Square 0 0) = EMPTY"
    and "cell_at (board position_after_undo) (Square 0 0) = BLACK_REGION"
    and "cell_at (board captured_position) (Square 5 5) = WHITE_REGION"
    and "cell_at (board capture_undone) (Square 5 5) = BLACK_REGION"
    by blast+
  then have "board position_after_undo \<noteq> board position_before_fourth_move"
    and "board capture_undone \<noteq> board captured_position"
    by auto
  moreover have "history position_after_undo = history position_before_fourth_move"
    by (simp add: position_after_undo_def position_before_fourth_move_def)
  moreover have "history capture_undone = history captured_position"
    by (simp add: capture_undone_def captured_position_def)
  ultimately show ?thesis by blast
qed

end
